theory Spec2Isabelle
  imports Complex_Main "HOL-Library.AList" "HOL-Library.Log_Nat"
begin

section \<open>Python dictionaries\<close>

text \<open>
  A Python \<^verbatim>\<open>dict\<close> is modelled by the list of its items in insertion order; the keys
  of a dictionary are pairwise distinct. \<^verbatim>\<open>len(d)\<close> is the length of the list,
  \<^verbatim>\<open>d.items()\<close> is the list itself, \<^verbatim>\<open>d[k] = v\<close> is \<^const>\<open>AList.update\<close>
  (which replaces the value of a present key in place and appends a new key at the end),
  and a lookup is \<^const>\<open>map_of\<close>.
\<close>

type_synonym ('k, 'v) dict = "('k \<times> 'v) list"

definition dict_keys :: "('k, 'v) dict \<Rightarrow> 'k set" where
  "dict_keys d = fst ` set d"

definition well_formed_dict :: "('k, 'v) dict \<Rightarrow> bool" where
  "well_formed_dict d = distinct (map fst d)"

section \<open>CollateMatchList\<close>

text \<open>
  \<^verbatim>\<open>
  def CollateMatchList(camera_matches, point_matches):
      point_to_keep = set()
      new_camera_matches = dict()
      new_point_matches = dict()
      for point_index, value in point_matches.items():
          if len(value) >= 3:
              new_point_matches[point_index] = value
              point_to_keep.add(point_index)
      for camera, points in camera_matches.items():
          new_camera_matches[camera] = {point: coord for point, coord in iter(points.items())
                                        if point in point_to_keep}
      return new_camera_matches, new_point_matches
  \<close>
  The first loop threads the pair \<open>(new_point_matches, point_to_keep)\<close>, the second one
  \<open>new_camera_matches\<close>. The dictionary comprehension keeps the items of \<open>points\<close>
  whose key is in \<open>point_to_keep\<close>, in their order.
\<close>

definition collate_point ::
  "nat \<times> ('cam, 'xy) dict \<Rightarrow> (nat, ('cam, 'xy) dict) dict \<times> nat set
     \<Rightarrow> (nat, ('cam, 'xy) dict) dict \<times> nat set" where
  "collate_point item acc =
     (case item of (point_index, value) \<Rightarrow>
        (case acc of (new_point_matches, point_to_keep) \<Rightarrow>
           if length value \<ge> 3
           then (AList.update point_index value new_point_matches,
                 insert point_index point_to_keep)
           else (new_point_matches, point_to_keep)))"

definition collate_camera ::
  "nat set \<Rightarrow> 'cam \<times> (nat, 'xy) dict \<Rightarrow> ('cam, (nat, 'xy) dict) dict
     \<Rightarrow> ('cam, (nat, 'xy) dict) dict" where
  "collate_camera point_to_keep item new_camera_matches =
     (case item of (camera, points) \<Rightarrow>
        AList.update camera
          (filter (\<lambda>(point, coord). point \<in> point_to_keep) points)
          new_camera_matches)"

definition CollateMatchList ::
  "('cam, (nat, 'xy) dict) dict \<Rightarrow> (nat, ('cam, 'xy) dict) dict
     \<Rightarrow> ('cam, (nat, 'xy) dict) dict \<times> (nat, ('cam, 'xy) dict) dict" where
  "CollateMatchList camera_matches point_matches =
     (case fold collate_point point_matches ([], {}) of
        (new_point_matches, point_to_keep) \<Rightarrow>
          (fold (collate_camera point_to_keep) camera_matches [], new_point_matches))"

text \<open>The tie points with at least three entries in \<open>point_matches\<close>.\<close>

definition retained :: "(nat, ('cam, 'xy) dict) dict \<Rightarrow> nat set" where
  "retained point_matches =
     {p. \<exists>value. map_of point_matches p = Some value \<and> 3 \<le> length value}"

section \<open>The reconstruction engine\<close>

text \<open>
  The photogrammetry engine (PhotoScan / Metashape) is not part of the repository. The
  model keeps of a chunk what the reduction phases read and write: the tie points of its
  point cloud, its \<open>tiepoint_accuracy\<close>, the camera parameters as an opaque value, and
  the list of the \<open>optimizeCameras\<close> calls it has received, oldest first. What the
  engine computes is a parameter of the model: the value of a criterion for a tie point
  under given camera parameters, and the camera parameters that a bundle adjustment
  returns. \<open>optimizeCameras\<close> changes the camera parameters only; it neither adds nor
  removes tie points.
\<close>

datatype criterion = ReconstructionUncertainty | ProjectionAccuracy | ReprojectionError

record fit_flags =
  fit_f :: bool
  fit_cx :: bool
  fit_cy :: bool
  fit_b1 :: bool
  fit_b2 :: bool
  fit_k1 :: bool
  fit_k2 :: bool
  fit_k3 :: bool
  fit_k4 :: bool
  fit_p1 :: bool
  fit_p2 :: bool
  fit_p3 :: bool
  fit_p4 :: bool
  adaptive_fitting :: bool
  tiepoint_covariance :: bool

record tie_point =
  track_id :: nat
  selected :: bool

record 'c chunk =
  points :: "tie_point list"
  calibration :: 'c
  tiepoint_accuracy :: real
  optimize_calls :: "fit_flags list"

record 'c engine =
  criterion_value :: "criterion \<Rightarrow> 'c \<Rightarrow> nat \<Rightarrow> real"
  adjust :: "fit_flags \<Rightarrow> 'c chunk \<Rightarrow> 'c"

definition optimizeCameras :: "'c engine \<Rightarrow> fit_flags \<Rightarrow> 'c chunk \<Rightarrow> 'c chunk" where
  "optimizeCameras E flags c =
     c\<lparr>calibration := adjust E flags c, optimize_calls := optimize_calls c @ [flags]\<rparr>"

text \<open>
  \<^verbatim>\<open>PhotoScan.PointCloud.Filter\<close>: \<open>init\<close> computes the value of the criterion for
  every tie point of the chunk, \<open>max_value\<close> is the largest of them (0 for an empty point
  cloud), \<open>selectPoints(threshold)\<close> selects the tie points whose value exceeds the
  threshold and deselects the others, \<open>resetSelection\<close> deselects all of them.
  \<open>removeSelectedPoints\<close> deletes the selected tie points from the point cloud.
\<close>

record point_filter =
  crit_values :: "real list"

definition filter_init :: "'c engine \<Rightarrow> criterion \<Rightarrow> 'c chunk \<Rightarrow> point_filter" where
  "filter_init E crit c =
     \<lparr>crit_values = map (\<lambda>p. criterion_value E crit (calibration c) (track_id p)) (points c)\<rparr>"

definition max_value :: "point_filter \<Rightarrow> real" where
  "max_value f = (case crit_values f of [] \<Rightarrow> 0 | v # vs \<Rightarrow> fold max vs v)"

definition selectPoints :: "point_filter \<Rightarrow> real \<Rightarrow> 'c chunk \<Rightarrow> 'c chunk" where
  "selectPoints f threshold c =
     c\<lparr>points := map (\<lambda>(p, v). p\<lparr>selected := (v > threshold)\<rparr>) (zip (points c) (crit_values f))\<rparr>"

definition resetSelection :: "'c chunk \<Rightarrow> 'c chunk" where
  "resetSelection c = c\<lparr>points := map (\<lambda>p. p\<lparr>selected := False\<rparr>) (points c)\<rparr>"

definition removeSelectedPoints :: "'c chunk \<Rightarrow> 'c chunk" where
  "removeSelectedPoints c = c\<lparr>points := filter (\<lambda>p. \<not> selected p) (points c)\<rparr>"

section \<open>The reduction phases\<close>

text \<open>
  The two parameter sets that the phases pass to \<open>optimizeCameras\<close>: the one of the RU
  and PA loops, and the one with every intrinsic parameter enabled (the RE loop and the
  last call of the PA phase).
\<close>

definition basic_fit :: fit_flags where
  "basic_fit =
     \<lparr>fit_f = True, fit_cx = True, fit_cy = True, fit_b1 = False, fit_b2 = False,
      fit_k1 = True, fit_k2 = True, fit_k3 = True, fit_k4 = False,
      fit_p1 = True, fit_p2 = True, fit_p3 = False, fit_p4 = False,
      adaptive_fitting = False, tiepoint_covariance = False\<rparr>"

definition full_fit :: fit_flags where
  "full_fit =
     \<lparr>fit_f = True, fit_cx = True, fit_cy = True, fit_b1 = True, fit_b2 = True,
      fit_k1 = True, fit_k2 = True, fit_k3 = True, fit_k4 = True,
      fit_p1 = True, fit_p2 = True, fit_p3 = True, fit_p4 = True,
      adaptive_fitting = False, tiepoint_covariance = False\<rparr>"

text \<open>
  Python floats are IEEE binary64 numbers. A float is modelled by the real number it
  denotes; \<open>py_float x\<close> is the float nearest to the real number \<open>x\<close> (53 significant
  bits, ties to the even significand; overflow and subnormal numbers do not occur at the
  magnitudes of thresholds), so that \<open>py_float (1 / 10)\<close> is the value of the literal
  \<^verbatim>\<open>0.1\<close>, and \<open>float_add\<close> is the addition of two floats. \<open>binade x\<close> is the
  exponent \<open>e\<close> with \<open>2 ^ e \<le> x < 2 ^ (e + 1)\<close> for a positive \<open>x\<close>.
\<close>

definition round_half_even :: "real \<Rightarrow> int" where
  "round_half_even x =
     (let f = \<lfloor>x\<rfloor>; r = x - of_int f
      in if r < 1 / 2 then f else if r > 1 / 2 then f + 1 else if even f then f else f + 1)"

definition binade :: "real \<Rightarrow> int" where
  "binade x =
     (if x \<ge> 1 then int (floorlog 2 (nat \<lfloor>x\<rfloor>)) - 1
      else - int (floorlog 2 (nat \<lceil>1 / x\<rceil> - 1)))"

definition py_float :: "real \<Rightarrow> real" where
  "py_float x =
     (if x = 0 then 0
      else let e = binade \<bar>x\<bar>
           in sgn x * of_int (round_half_even (\<bar>x\<bar> * 2 powi (52 - e))) * 2 powi (e - 52))"

definition float_add :: "real \<Rightarrow> real \<Rightarrow> real" where
  "float_add a b = py_float (a + b)"

text \<open>
  The variables of a phase's loop: the chunk, the filter object and the threshold.
  The RU threshold is an integer and its arithmetic is exact. The PA and RE thresholds are
  floats: the steps \<^verbatim>\<open>threshold += 0.1\<close> and \<^verbatim>\<open>threshold += 0.01\<close> are float
  additions. The literals 2.0 and 3.0 are exact. Criterion values are floats, and a float
  exceeds the float 0.3 exactly when it exceeds the real number 3/10, which is what the
  guard of the RE loop compares with.
\<close>

record 'c loop_state =
  chunk :: "'c chunk"
  fltr :: point_filter
  threshold :: real

definition nselected :: "'c chunk \<Rightarrow> nat" where
  "nselected c = length (filter selected (points c))"

text \<open>
  \<^verbatim>\<open>
  def ReduceError_RU(chunk, init_threshold=10):
      tie_points = chunk.point_cloud
      fltr = PhotoScan.PointCloud.Filter()
      fltr.init(chunk, PhotoScan.PointCloud.Filter.ReconstructionUncertainty)
      threshold = init_threshold
      while fltr.max_value > 10:
          fltr.selectPoints(threshold)
          nselected = len([p for p in tie_points.points if p.selected])
          if nselected >= len(tie_points.points) / 2 and threshold <= 50:
              fltr.resetSelection()
              threshold += 1
              continue
          tie_points.removeSelectedPoints()
          chunk.optimizeCameras(fit_f=True, ..., fit_b1=False, fit_b2=False, ...,
                                fit_k4=False, ..., fit_p3=False, fit_p4=False,
                                adaptive_fitting=False, tiepoint_covariance=False)
          fltr.init(chunk, PhotoScan.PointCloud.Filter.ReconstructionUncertainty)
          threshold = init_threshold
  \<close>
  One pass through the body of the loop is \<open>RU_iteration\<close>. The loop itself may run
  forever, so it returns an option: \<open>None\<close> when it does not return.
\<close>

definition RU_iteration :: "'c engine \<Rightarrow> real \<Rightarrow> 'c loop_state \<Rightarrow> 'c loop_state" where
  "RU_iteration E init_threshold s =
     (let c1 = selectPoints (fltr s) (threshold s) (chunk s) in
      if real (nselected c1) \<ge> real (length (points c1)) / 2 \<and> threshold s \<le> 50
      then s\<lparr>chunk := resetSelection c1, threshold := threshold s + 1\<rparr>
      else
        let c2 = removeSelectedPoints c1;
            c3 = optimizeCameras E basic_fit c2
        in \<lparr>chunk = c3, fltr = filter_init E ReconstructionUncertainty c3,
            threshold = init_threshold\<rparr>)"

partial_function (option) RU_loop ::
  "'c engine \<Rightarrow> real \<Rightarrow> 'c loop_state \<Rightarrow> 'c loop_state option" where
  "RU_loop E init_threshold s =
     (if max_value (fltr s) > 10
      then RU_loop E init_threshold (RU_iteration E init_threshold s)
      else Some s)"

definition RU_start :: "'c engine \<Rightarrow> 'c chunk \<Rightarrow> real \<Rightarrow> 'c loop_state" where
  "RU_start E c init_threshold =
     \<lparr>chunk = c, fltr = filter_init E ReconstructionUncertainty c,
      threshold = init_threshold\<rparr>"

definition ReduceError_RU :: "'c engine \<Rightarrow> 'c chunk \<Rightarrow> real \<Rightarrow> 'c chunk option" where
  "ReduceError_RU E c init_threshold =
     (case RU_loop E init_threshold (RU_start E c init_threshold) of
        None \<Rightarrow> None
      | Some s \<Rightarrow> Some (chunk s))"

text \<open>
  \<^verbatim>\<open>
  def ReduceError_PA(chunk, init_threshold=2.0):
      ...
      fltr.init(chunk, PhotoScan.PointCloud.Filter.ProjectionAccuracy)
      threshold = init_threshold
      while fltr.max_value > 2.0:
          fltr.selectPoints(threshold)
          nselected = len([p for p in tie_points.points if p.selected])
          if nselected >= len(tie_points.points) / 2 and threshold <= 3.0:
              fltr.resetSelection()
              threshold += 0.1
              continue
          tie_points.removeSelectedPoints()
          chunk.optimizeCameras(<as in ReduceError_RU>)
          fltr.init(chunk, PhotoScan.PointCloud.Filter.ProjectionAccuracy)
          threshold = init_threshold
      # This is to tighten tie point accuracy value
      chunk.tiepoint_accuracy = 0.1
      chunk.optimizeCameras(fit_f=True, ..., fit_p4=True,
                            adaptive_fitting=False, tiepoint_covariance=False)
  \<close>
\<close>

definition PA_iteration :: "'c engine \<Rightarrow> real \<Rightarrow> 'c loop_state \<Rightarrow> 'c loop_state" where
  "PA_iteration E init_threshold s =
     (let c1 = selectPoints (fltr s) (threshold s) (chunk s) in
      if real (nselected c1) \<ge> real (length (points c1)) / 2 \<and> threshold s \<le> 3
      then s\<lparr>chunk := resetSelection c1,
             threshold := float_add (threshold s) (py_float (1 / 10))\<rparr>
      else
        let c2 = removeSelectedPoints c1;
            c3 = optimizeCameras E basic_fit c2
        in \<lparr>chunk = c3, fltr = filter_init E ProjectionAccuracy c3,
            threshold = init_threshold\<rparr>)"

partial_function (option) PA_loop ::
  "'c engine \<Rightarrow> real \<Rightarrow> 'c loop_state \<Rightarrow> 'c loop_state option" where
  "PA_loop E init_threshold s =
     (if max_value (fltr s) > 2
      then PA_loop E init_threshold (PA_iteration E init_threshold s)
      else Some s)"

definition PA_start :: "'c engine \<Rightarrow> 'c chunk \<Rightarrow> real \<Rightarrow> 'c loop_state" where
  "PA_start E c init_threshold =
     \<lparr>chunk = c, fltr = filter_init E ProjectionAccuracy c, threshold = init_threshold\<rparr>"

definition PA_finish :: "'c engine \<Rightarrow> 'c chunk \<Rightarrow> 'c chunk" where
  "PA_finish E c = optimizeCameras E full_fit (c\<lparr>tiepoint_accuracy := py_float (1 / 10)\<rparr>)"

definition ReduceError_PA :: "'c engine \<Rightarrow> 'c chunk \<Rightarrow> real \<Rightarrow> 'c chunk option" where
  "ReduceError_PA E c init_threshold =
     (case PA_loop E init_threshold (PA_start E c init_threshold) of
        None \<Rightarrow> None
      | Some s \<Rightarrow> Some (PA_finish E (chunk s)))"

text \<open>
  \<^verbatim>\<open>
  def ReduceError_RE(chunk, init_threshold=0.3):
      ...
      fltr.init(chunk, PhotoScan.PointCloud.Filter.ReprojectionError)
      threshold = init_threshold
      while fltr.max_value > 0.3:
          fltr.selectPoints(threshold)
          nselected = len([p for p in tie_points.points if p.selected])
          if nselected >= len(tie_points.points) / 10:
              fltr.resetSelection()
              threshold += 0.01
              continue
          tie_points.removeSelectedPoints()
          chunk.optimizeCameras(fit_f=True, ..., fit_p4=True,
                                adaptive_fitting=False, tiepoint_covariance=False)
          fltr.init(chunk, PhotoScan.PointCloud.Filter.ReprojectionError)
          threshold = init_threshold
  \<close>
\<close>

definition RE_iteration :: "'c engine \<Rightarrow> real \<Rightarrow> 'c loop_state \<Rightarrow> 'c loop_state" where
  "RE_iteration E init_threshold s =
     (let c1 = selectPoints (fltr s) (threshold s) (chunk s) in
      if real (nselected c1) \<ge> real (length (points c1)) / 10
      then s\<lparr>chunk := resetSelection c1,
             threshold := float_add (threshold s) (py_float (1 / 100))\<rparr>
      else
        let c2 = removeSelectedPoints c1;
            c3 = optimizeCameras E full_fit c2
        in \<lparr>chunk = c3, fltr = filter_init E ReprojectionError c3,
            threshold = init_threshold\<rparr>)"

partial_function (option) RE_loop ::
  "'c engine \<Rightarrow> real \<Rightarrow> 'c loop_state \<Rightarrow> 'c loop_state option" where
  "RE_loop E init_threshold s =
     (if max_value (fltr s) > 3 / 10
      then RE_loop E init_threshold (RE_iteration E init_threshold s)
      else Some s)"

definition RE_start :: "'c engine \<Rightarrow> 'c chunk \<Rightarrow> real \<Rightarrow> 'c loop_state" where
  "RE_start E c init_threshold =
     \<lparr>chunk = c, fltr = filter_init E ReprojectionError c, threshold = init_threshold\<rparr>"

definition ReduceError_RE :: "'c engine \<Rightarrow> 'c chunk \<Rightarrow> real \<Rightarrow> 'c chunk option" where
  "ReduceError_RE E c init_threshold =
     (case RE_loop E init_threshold (RE_start E c init_threshold) of
        None \<Rightarrow> None
      | Some s \<Rightarrow> Some (chunk s))"

text \<open>
  The filter object of a loop state holds one value for each tie point of the chunk. This
  holds when a phase starts and after each pass through the body of its loop.
\<close>

definition filter_matches_chunk :: "'c loop_state \<Rightarrow> bool" where
  "filter_matches_chunk s = (length (crit_values (fltr s)) = length (points (chunk s)))"

text \<open>
  What one pass through the body of a loop can do to the loop state: the number of tie
  points strictly decreases or the threshold strictly increases (\<open>strict_progress\<close>), or
  the threshold drops while the tie points stay and none of them exceeded the threshold
  (\<open>threshold_fell_back\<close>).
\<close>

definition strict_progress :: "'c loop_state \<Rightarrow> 'c loop_state \<Rightarrow> bool" where
  "strict_progress s s' =
     (length (points (chunk s')) < length (points (chunk s)) \<or> threshold s < threshold s')"

definition threshold_fell_back :: "'c loop_state \<Rightarrow> 'c loop_state \<Rightarrow> bool" where
  "threshold_fell_back s s' =
     (threshold s' < threshold s
      \<and> map track_id (points (chunk s')) = map track_id (points (chunk s))
      \<and> length (filter (\<lambda>v. v > threshold s) (crit_values (fltr s))) = 0)"

section \<open>Example inputs\<close>

text \<open>
  An engine that gives every tie point the same criterion value and whose bundle
  adjustment leaves the camera parameters as they are, and a chunk of \<open>n\<close> unselected tie
  points with track ids \<open>0, \<dots>, n - 1\<close>.
\<close>

definition uniform_engine :: "real \<Rightarrow> unit engine" where
  "uniform_engine v =
     \<lparr>criterion_value = (\<lambda>crit cal track. v), adjust = (\<lambda>flags c. calibration c)\<rparr>"

definition fresh_chunk :: "nat \<Rightarrow> unit chunk" where
  "fresh_chunk n =
     \<lparr>points = map (\<lambda>i. \<lparr>track_id = i, selected = False\<rparr>) [0..<n],
      calibration = (), tiepoint_accuracy = 1, optimize_calls = []\<rparr>"

definition widened_once :: "unit loop_state" where
  "widened_once =
     RU_iteration (uniform_engine (21 / 2)) 10
       (RU_start (uniform_engine (21 / 2)) (fresh_chunk 4) 10)"

text \<open>
  The states of the RU loop on four tie points of reconstruction uncertainty 10.5: the
  threshold alternates between 10 and 11.
\<close>

definition stalling :: "unit loop_state \<Rightarrow> bool" where
  "stalling s =
     (length (points (chunk s)) = 4
      \<and> crit_values (fltr s) = [21 / 2, 21 / 2, 21 / 2, 21 / 2]
      \<and> (threshold s = 10 \<or> threshold s = 11))"

text \<open>
  The states of the PA loop on four tie points of projection accuracy 2.05: the threshold
  alternates between 2.0 and the float sum of 2.0 and 0.1.
\<close>

definition stalling_PA :: "unit loop_state \<Rightarrow> bool" where
  "stalling_PA s =
     (length (points (chunk s)) = 4
      \<and> crit_values (fltr s) = [41 / 20, 41 / 20, 41 / 20, 41 / 20]
      \<and> (threshold s = 2 \<or> threshold s = float_add 2 (py_float (1 / 10))))"

text \<open>
  An engine that gives the tie point of track 0 one criterion value and all the others
  another one.
\<close>

definition outlier_engine :: "real \<Rightarrow> real \<Rightarrow> unit engine" where
  "outlier_engine high low =
     \<lparr>criterion_value = (\<lambda>crit cal track. if track = 0 then high else low),
      adjust = (\<lambda>flags c. calibration c)\<rparr>"

text \<open>
  The state of the RU loop on two tie points of reconstruction uncertainty 100 while the
  threshold is being widened.
\<close>

definition widening_state :: "real \<Rightarrow> unit loop_state" where
  "widening_state t =
     \<lparr>chunk = fresh_chunk 2,
      fltr = filter_init (uniform_engine 100) ReconstructionUncertainty (fresh_chunk 2),
      threshold = t\<rparr>"

section \<open>Solar geometry\<close>

text \<open>
  \<^verbatim>\<open>
  def GetSunAngle(LonLat, time):
      Sun_zenith = 90 - get_altitude(LonLat[1], LonLat[0], time)
      Sun_azimuth_South = get_azimuth(LonLat[1], LonLat[0], time)
      # Convert azimuth to zero-to-north
      Sun_azimuth = 180 - Sun_azimuth_South
      if abs(Sun_azimuth) >= 360:
          Sun_azimuth -= 360
      return Sun_zenith, Sun_azimuth
  \<close>
  \<open>get_altitude\<close> and \<open>get_azimuth\<close> belong to the pysolar library; they are
  parameters of the model, called with latitude, longitude and time. A geographic point is
  the vector that the coordinate system returns: longitude at index 0, latitude at index 1.
  Angles are Python floats, modelled by real numbers.
\<close>

record geo_point =
  lon :: real
  lat :: real
  alt :: real

record 't pysolar =
  get_altitude :: "real \<Rightarrow> real \<Rightarrow> 't \<Rightarrow> real"
  get_azimuth :: "real \<Rightarrow> real \<Rightarrow> 't \<Rightarrow> real"

definition GetSunAngle :: "'t pysolar \<Rightarrow> geo_point \<Rightarrow> 't \<Rightarrow> real \<times> real" where
  "GetSunAngle L LonLat time =
     (let Sun_zenith = 90 - get_altitude L (lat LonLat) (lon LonLat) time;
          Sun_azimuth_South = get_azimuth L (lat LonLat) (lon LonLat) time;
          Sun_azimuth = 180 - Sun_azimuth_South
      in if \<bar>Sun_azimuth\<bar> \<ge> 360
         then (Sun_zenith, Sun_azimuth - 360)
         else (Sun_zenith, Sun_azimuth))"

text \<open>A solar library that reports the same altitude and azimuth everywhere.\<close>

definition constant_sun :: "real \<Rightarrow> real \<Rightarrow> unit pysolar" where
  "constant_sun altitude azimuth =
     \<lparr>get_altitude = (\<lambda>la lo t. altitude), get_azimuth = (\<lambda>la lo t. azimuth)\<rparr>"

definition origin :: geo_point where
  "origin = \<lparr>lon = 0, lat = 0, alt = 0\<rparr>"

section \<open>Sun and view angle arrays\<close>

text \<open>
  \<^verbatim>\<open>
  def CreateSunViewGeometryArrays(chunk, camera):
      Camera_Depth_Array = GetCameraDepth(chunk, camera)
      R_t = GetWorldRotMatrix(chunk, camera).t()
      width = camera.sensor.width
      height = camera.sensor.height
      cx = camera.sensor.calibration.cx
      cy = camera.sensor.calibration.cy
      Sun_zenith = np.zeros([height, width])
      Sun_azimuth = np.zeros([height, width])
      View_zenith = np.zeros([height, width])
      View_azimuth = np.zeros([height, width])
      DateTime = GetDateTime(camera)

      # Initialise the sun angle calculation for camera centre
      geo_point = GetPixelLocation(width/2+cx, width/2+cy, chunk, camera, Camera_Depth_Array, wgs_84)
      Pixel_Sun_zenith, Pixel_Sun_azimuth = GetSunAngle(geo_point, DateTime)

      for u, v in [(u, v) for u in range(width) for v in range(height)]:
      # Recalculate the Sun angle for each pixel if Pixelwise is True
          if Pixelwise is True:
              geo_point = GetPixelLocation(u, v, chunk, camera, Camera_Depth_Array, wgs_84)
              Pixel_Sun_zenith, Pixel_Sun_azimuth = GetSunAngle(geo_point, DateTime)

          Pixel_View_zenith, Pixel_View_azimuth = GetViewAngle(u, v, R_t, chunk, camera)
          Sun_zenith[v, u] = Pixel_Sun_zenith
          Sun_azimuth[v, u] = Pixel_Sun_azimuth
          View_zenith[v, u] = Pixel_View_zenith
          View_azimuth[v, u] = Pixel_View_azimuth
      return Sun_zenith, Sun_azimuth, View_zenith, View_azimuth
  \<close>
  What the engine supplies for one camera is a parameter: the sensor size and principal
  point offsets, the capture time (\<open>GetDateTime\<close>), the geographic location of a pixel
  (\<open>GetPixelLocation\<close> for this chunk, camera and depth array) and the view angles of a
  pixel (\<open>GetViewAngle\<close>). A numpy array of shape \<open>[height, width]\<close> is a function of
  the row \<open>v\<close> and the column \<open>u\<close>; \<open>np.zeros\<close> is the constant 0 and
  \<open>A[v, u] = x\<close> updates one entry. \<open>width/2\<close> is Python's true division.
\<close>

type_synonym ndarray = "nat \<Rightarrow> nat \<Rightarrow> real"

definition zeros :: ndarray where
  "zeros = (\<lambda>v u. 0)"

definition array_set :: "ndarray \<Rightarrow> nat \<Rightarrow> nat \<Rightarrow> real \<Rightarrow> ndarray" where
  "array_set A v u x = A(v := (A v)(u := x))"

record 't camera_view =
  sensor_width :: nat
  sensor_height :: nat
  calibration_cx :: real
  calibration_cy :: real
  date_time :: 't
  GetPixelLocation :: "real \<Rightarrow> real \<Rightarrow> geo_point"
  GetViewAngle :: "nat \<Rightarrow> nat \<Rightarrow> real \<times> real"

record geometry_arrays =
  pixel_sun_zenith :: real
  pixel_sun_azimuth :: real
  sun_zenith_array :: ndarray
  sun_azimuth_array :: ndarray
  view_zenith_array :: ndarray
  view_azimuth_array :: ndarray

definition geometry_pixel ::
  "'t pysolar \<Rightarrow> bool \<Rightarrow> 't camera_view \<Rightarrow> nat \<times> nat \<Rightarrow> geometry_arrays \<Rightarrow> geometry_arrays" where
  "geometry_pixel L Pixelwise camera uv g =
     (case uv of (u, v) \<Rightarrow>
        let (Pixel_Sun_zenith, Pixel_Sun_azimuth) =
              (if Pixelwise
               then GetSunAngle L (GetPixelLocation camera (real u) (real v)) (date_time camera)
               else (pixel_sun_zenith g, pixel_sun_azimuth g));
            (Pixel_View_zenith, Pixel_View_azimuth) = GetViewAngle camera u v
        in \<lparr>pixel_sun_zenith = Pixel_Sun_zenith,
            pixel_sun_azimuth = Pixel_Sun_azimuth,
            sun_zenith_array = array_set (sun_zenith_array g) v u Pixel_Sun_zenith,
            sun_azimuth_array = array_set (sun_azimuth_array g) v u Pixel_Sun_azimuth,
            view_zenith_array = array_set (view_zenith_array g) v u Pixel_View_zenith,
            view_azimuth_array = array_set (view_azimuth_array g) v u Pixel_View_azimuth\<rparr>)"

definition CreateSunViewGeometryArrays ::
  "'t pysolar \<Rightarrow> bool \<Rightarrow> 't camera_view \<Rightarrow> ndarray \<times> ndarray \<times> ndarray \<times> ndarray" where
  "CreateSunViewGeometryArrays L Pixelwise camera =
     (let width = sensor_width camera;
          height = sensor_height camera;
          cx = calibration_cx camera;
          cy = calibration_cy camera;
          geo_point = GetPixelLocation camera (real width / 2 + cx) (real width / 2 + cy);
          (Pixel_Sun_zenith, Pixel_Sun_azimuth) = GetSunAngle L geo_point (date_time camera);
          g = fold (geometry_pixel L Pixelwise camera)
                (List.product [0..<width] [0..<height])
                \<lparr>pixel_sun_zenith = Pixel_Sun_zenith, pixel_sun_azimuth = Pixel_Sun_azimuth,
                 sun_zenith_array = zeros, sun_azimuth_array = zeros,
                 view_zenith_array = zeros, view_azimuth_array = zeros\<rparr>
      in (sun_zenith_array g, sun_azimuth_array g, view_zenith_array g, view_azimuth_array g))"

text \<open>
  The pixel at the centre of the sensor, shifted by the principal point offsets, and a
  camera of width 2 and height 4 whose pixels are located at longitude \<open>u\<close> and latitude
  \<open>v\<close>, under a sun whose altitude is the latitude.
\<close>

definition camera_centre :: "'t camera_view \<Rightarrow> real \<times> real" where
  "camera_centre camera =
     (real (sensor_width camera) / 2 + calibration_cx camera,
      real (sensor_height camera) / 2 + calibration_cy camera)"

definition portrait_camera :: "unit camera_view" where
  "portrait_camera =
     \<lparr>sensor_width = 2, sensor_height = 4, calibration_cx = 0, calibration_cy = 0,
      date_time = (),
      GetPixelLocation = (\<lambda>u v. \<lparr>lon = u, lat = v, alt = 0\<rparr>),
      GetViewAngle = (\<lambda>u v. (0, 0))\<rparr>"

definition latitude_sun :: "unit pysolar" where
  "latitude_sun = \<lparr>get_altitude = (\<lambda>la lo t. la), get_azimuth = (\<lambda>la lo t. 0)\<rparr>"

section \<open>The per-band loop of BRDFCorrection\<close>

text \<open>
  Python exceptions are values: a computation that can raise returns \<open>exn + 'a\<close>, with
  \<open>Inl\<close> for the exception.
\<close>

datatype exn = ValueError | AttributeError | IndexError | KeyError

text \<open>
  The functions of \<^verbatim>\<open>os.path\<close> and \<^verbatim>\<open>str.lower\<close> are parameters of the model. The
  file system maps the paths that exist to a directory or to an image file. Of a band the
  model keeps the path of its photo, the label of its camera group (\<open>None\<close> when
  \<^verbatim>\<open>band.group\<close> is \<^verbatim>\<open>None\<close>) and the \<open>enabled\<close> flag.
\<close>

record os_path =
  abspath :: "string \<Rightarrow> string"
  path_split :: "string \<Rightarrow> string \<times> string"
  splitext :: "string \<Rightarrow> string \<times> string"
  path_join :: "string \<Rightarrow> string \<Rightarrow> string"
  lower :: "string \<Rightarrow> string"

datatype 'img node = Directory | ImageFile 'img

type_synonym 'img file_system = "string \<rightharpoonup> 'img node"

record band =
  photo_path :: string
  group :: "string option"
  enabled :: bool

text \<open>
  \<^verbatim>\<open>
  for band in [band for camera in chunk.cameras for band in camera.planes]:
      filename = band.photo.path
      filename_formatted = os.path.abspath(filename)
      image_path, image_nameext = os.path.split(filename)
      image_name, ext = os.path.splitext(image_nameext)
      new_path = os.path.join(outpath, ''.join([image_name, ext.lower()]))
      new_filename_formatted = os.path.abspath(os.path.join(new_path, image_nameext))
      try:
          if band.group.label == 'Calibration images':
              continue
      except AttributeError:
          if filename_formatted == new_filename_formatted:
              continue
          elif os.path.exists(new_path):
              band.photo.open(new_path, 0)
          else:
              try:
                  band_name = band.sensor.bands[0]
                  New_Image = BRDFImage(chunk, band, camera_matches[band_name],
                                        point_matches[band_name],
                                        Sun_azimuth, View_zenith, View_azimuth)
                  New_Image.save(new_path)
                  band.photo.open(new_path, 0)
              except ValueError:
                  band.enabled = False
  \<close>
  \<^verbatim>\<open>band.group.label\<close> raises \<open>AttributeError\<close> when the band has no group. The call of
  \<open>BRDFImage\<close> with the tables of the band is the parameter \<open>brdf\<close>.
  \<^verbatim>\<open>band.photo.open(new_path, 0)\<close> makes \<open>new_path\<close> the photo of the band, and
  \<^verbatim>\<open>New_Image.save(new_path)\<close> writes the image file.
\<close>

definition group_label :: "band \<Rightarrow> exn + string" where
  "group_label b = (case group b of None \<Rightarrow> Inl AttributeError | Some l \<Rightarrow> Inr l)"

definition filename_formatted :: "os_path \<Rightarrow> band \<Rightarrow> string" where
  "filename_formatted P b = abspath P (photo_path b)"

definition new_path :: "os_path \<Rightarrow> string \<Rightarrow> band \<Rightarrow> string" where
  "new_path P outpath b =
     (case path_split P (photo_path b) of (image_path, image_nameext) \<Rightarrow>
        (case splitext P image_nameext of (image_name, ext) \<Rightarrow>
           path_join P outpath (image_name @ lower P ext)))"

definition new_filename_formatted :: "os_path \<Rightarrow> string \<Rightarrow> band \<Rightarrow> string" where
  "new_filename_formatted P outpath b =
     (case path_split P (photo_path b) of (image_path, image_nameext) \<Rightarrow>
        abspath P (path_join P (new_path P outpath b) image_nameext))"

definition correct_band ::
  "os_path \<Rightarrow> (band \<Rightarrow> exn + 'img) \<Rightarrow> string \<Rightarrow> 'img file_system \<times> band
     \<Rightarrow> exn + ('img file_system \<times> band)" where
  "correct_band P brdf outpath st =
     (case st of (fs, b) \<Rightarrow>
        (case group_label b of
           Inr label \<Rightarrow>
             if label = ''Calibration images'' then Inr (fs, b) else Inr (fs, b)
         | Inl AttributeError \<Rightarrow>
             if filename_formatted P b = new_filename_formatted P outpath b then Inr (fs, b)
             else if new_path P outpath b \<in> dom fs
             then Inr (fs, b\<lparr>photo_path := new_path P outpath b\<rparr>)
             else
               (case brdf b of
                  Inr New_Image \<Rightarrow>
                    Inr (fs(new_path P outpath b \<mapsto> ImageFile New_Image),
                         b\<lparr>photo_path := new_path P outpath b\<rparr>)
                | Inl ValueError \<Rightarrow> Inr (fs, b\<lparr>enabled := False\<rparr>)
                | Inl e \<Rightarrow> Inl e)
         | Inl e \<Rightarrow> Inl e))"

text \<open>
  The loop runs the body on each band in turn, threading the file system; an exception
  that the body does not handle ends the loop.
\<close>

fun correct_bands ::
  "os_path \<Rightarrow> (band \<Rightarrow> exn + 'img) \<Rightarrow> string \<Rightarrow> 'img file_system \<Rightarrow> band list
     \<Rightarrow> exn + ('img file_system \<times> band list)" where
  "correct_bands P brdf outpath fs [] = Inr (fs, [])"
| "correct_bands P brdf outpath fs (b # bs) =
     (case correct_band P brdf outpath (fs, b) of
        Inl e \<Rightarrow> Inl e
      | Inr (fs', b') \<Rightarrow>
          (case correct_bands P brdf outpath fs' bs of
             Inl e \<Rightarrow> Inl e
           | Inr (fs'', bs') \<Rightarrow> Inr (fs'', b' # bs')))"

text \<open>
  A path library for the examples: paths are absolute and normalised, so \<open>abspath\<close>
  returns its argument; \<open>split\<close> cuts at the last slash, \<open>splitext\<close> at the last dot of
  a file name, \<open>join\<close> puts a slash between its arguments, and the extensions of the
  examples are in lower case already.
\<close>

definition split_last :: "char \<Rightarrow> string \<Rightarrow> string \<times> string" where
  "split_last c p =
     (rev (drop 1 (dropWhile (\<lambda>x. x \<noteq> c) (rev p))), rev (takeWhile (\<lambda>x. x \<noteq> c) (rev p)))"

definition example_paths :: os_path where
  "example_paths =
     \<lparr>abspath = (\<lambda>p. p),
      path_split = split_last (CHR ''/''),
      splitext = (\<lambda>n. case split_last (CHR ''.'') n of (name, e) \<Rightarrow> (name, CHR ''.'' # e)),
      path_join = (\<lambda>a b. a @ ''/'' @ b),
      lower = (\<lambda>e. e)\<rparr>"

definition example_band :: "string option \<Rightarrow> band" where
  "example_band g = \<lparr>photo_path = ''/data/IMG_1.tif'', group = g, enabled = True\<rparr>"

section \<open>BRDFImage\<close>

text \<open>
  Sequencing of computations that can raise, and a dictionary lookup \<^verbatim>\<open>d[k]\<close>, which
  raises \<open>KeyError\<close> for a missing key.
\<close>

definition bind :: "exn + 'a \<Rightarrow> ('a \<Rightarrow> exn + 'b) \<Rightarrow> exn + 'b" where
  "bind m f = (case m of Inl e \<Rightarrow> Inl e | Inr x \<Rightarrow> f x)"

fun for_each :: "('a \<Rightarrow> exn + 'b) \<Rightarrow> 'a list \<Rightarrow> exn + 'b list" where
  "for_each f [] = Inr []"
| "for_each f (x # xs) = bind (f x) (\<lambda>y. bind (for_each f xs) (\<lambda>ys. Inr (y # ys)))"

definition dict_get :: "('k, 'v) dict \<Rightarrow> 'k \<Rightarrow> exn + 'v" where
  "dict_get d k = (case map_of d k of None \<Rightarrow> Inl KeyError | Some v \<Rightarrow> Inr v)"

text \<open>
  A PhotoScan image has a width, a height, a data type tag and pixels addressed by column
  \<open>u\<close> and row \<open>v\<close>; the images of the pipeline have one channel. Pixel values are
  modelled by real numbers. \<^verbatim>\<open>PhotoScan.Image(width, height, ' ', t)\<close> is
  \<open>new_image\<close> and \<^verbatim>\<open>img[u, v] = (x, )\<close> is \<open>image_set\<close>.
\<close>

record image =
  image_width :: nat
  image_height :: nat
  data_type :: string
  pixel :: "nat \<Rightarrow> nat \<Rightarrow> real"

definition new_image :: "nat \<Rightarrow> nat \<Rightarrow> string \<Rightarrow> image" where
  "new_image width height t =
     \<lparr>image_width = width, image_height = height, data_type = t, pixel = (\<lambda>u v. 0)\<rparr>"

definition image_set :: "image \<Rightarrow> nat \<Rightarrow> nat \<Rightarrow> real \<Rightarrow> image" where
  "image_set img u v x = img\<lparr>pixel := (pixel img)(u := (pixel img u)(v := x))\<rparr>"

text \<open>
  The numpy types of the table \<^verbatim>\<open>datatype\<close>, and \<^verbatim>\<open>np.iinfo\<close> and \<^verbatim>\<open>np.finfo\<close>,
  which return the smallest and the largest value of an integer or a floating type and
  raise \<open>ValueError\<close> for a type of the other kind.
\<close>

datatype np_dtype = uint8 | uint16 | uint32 | float32 | float64

definition datatype_table :: "(string, np_dtype) dict" where
  "datatype_table =
     [(''U8'', uint8), (''U16'', uint16), (''U32'', uint32), (''F32'', float32),
      (''F64'', float64)]"

fun iinfo :: "np_dtype \<Rightarrow> exn + real \<times> real" where
  "iinfo uint8 = Inr (0, 255)"
| "iinfo uint16 = Inr (0, 65535)"
| "iinfo uint32 = Inr (0, 4294967295)"
| "iinfo float32 = Inl ValueError"
| "iinfo float64 = Inl ValueError"

fun finfo :: "np_dtype \<Rightarrow> exn + real \<times> real" where
  "finfo float32 = Inr (- ((2 - 1 / 2 ^ 23) * 2 ^ 127), (2 - 1 / 2 ^ 23) * 2 ^ 127)"
| "finfo float64 = Inr (- ((2 - 1 / 2 ^ 52) * 2 ^ 1023), (2 - 1 / 2 ^ 52) * 2 ^ 1023)"
| "finfo uint8 = Inl ValueError"
| "finfo uint16 = Inl ValueError"
| "finfo uint32 = Inl ValueError"

text \<open>
  \<^verbatim>\<open>
  try:
      dtype_max = np.iinfo(Imtype).max
      dtype_min = np.iinfo(Imtype).min
  except ValueError:
      dtype_max = np.finfo(Imtype).max
      dtype_min = np.finfo(Imtype).min
  np.clip(BRDFZenithArray, dtype_min, dtype_max, BRDFZenithArray)
  \<close>
\<close>

definition dtype_range :: "np_dtype \<Rightarrow> exn + real \<times> real" where
  "dtype_range Imtype =
     (case iinfo Imtype of
        Inr r \<Rightarrow> Inr r
      | Inl ValueError \<Rightarrow> finfo Imtype
      | Inl e \<Rightarrow> Inl e)"

definition clip :: "real \<Rightarrow> real \<Rightarrow> real \<Rightarrow> real" where
  "clip a_min a_max x = min a_max (max a_min x)"

text \<open>
  The scikit-learn estimators that are fitted to data are parameters of the model. Fitting
  can raise; a fitted Gaussian mixture is the function that predicts the component of an
  intensity, a fitted linear regression with intercept is its pair of coefficients and
  its intercept, and one fitted without intercept is the function that predicts the value
  of a sample.
\<close>

record sklearn =
  GaussianMixture_fit :: "real list \<Rightarrow> exn + (real \<Rightarrow> nat)"
  LinearRegression_fit :: "real list list \<Rightarrow> real list \<Rightarrow> exn + (real \<times> real) \<times> real"
  LinearRegression_fit_no_intercept :: "real list list \<Rightarrow> real list \<Rightarrow> exn + (real list \<Rightarrow> real)"

text \<open>
  \<^verbatim>\<open>DBSCAN(eps=5000)\<close> of scikit-learn, with its default \<^verbatim>\<open>min_samples=5\<close> and the
  Euclidean metric: a row is a core sample when at least \<open>min_samples\<close> rows, itself
  included, lie within \<open>eps\<close> of it, and the label of a row is -1 (noise) when the row
  lies within \<open>eps\<close> of no core sample. The numbers of the clusters are not modelled,
  only whether a label is -1. Distances are compared through their squares.
\<close>

definition squared_distance :: "real list \<Rightarrow> real list \<Rightarrow> real" where
  "squared_distance a b = sum_list (map (\<lambda>(x, y). (x - y) ^ 2) (zip a b))"

definition within_eps :: "real \<Rightarrow> real list \<Rightarrow> real list \<Rightarrow> bool" where
  "within_eps eps a b = (squared_distance a b \<le> eps ^ 2)"

definition core_sample :: "real \<Rightarrow> nat \<Rightarrow> real list list \<Rightarrow> real list \<Rightarrow> bool" where
  "core_sample eps min_samples rows q =
     (min_samples \<le> length (filter (within_eps eps q) rows))"

definition DBSCAN_noise :: "real \<Rightarrow> nat \<Rightarrow> real list list \<Rightarrow> real list \<Rightarrow> bool" where
  "DBSCAN_noise eps min_samples rows r =
     (\<not> list_ex (\<lambda>q. core_sample eps min_samples rows q \<and> within_eps eps q r) rows)"

text \<open>
  What \<open>BRDFImage\<close> reads of a camera (a band): the size of its sensor and the image of
  its photo. A projection is a pair of pixel coordinates, which are not negative;
  \<^verbatim>\<open>int\<close> truncates them.
\<close>

record 'cam cameras =
  sensor_size :: "'cam \<Rightarrow> nat \<times> nat"
  photo_image :: "'cam \<Rightarrow> image"

definition to_index :: "real \<Rightarrow> nat" where
  "to_index x = nat \<lfloor>x\<rfloor>"

definition radians :: "real \<Rightarrow> real" where
  "radians x = x * pi / 180"

text \<open>
  \<^verbatim>\<open>
  def MultiLinearRegression(chunk, point_matches, Sun_azimuth, View_zenith, View_azimuth):
      cameras = point_matches.keys()
      X = list()
      Y = list()
      for camera in cameras:
          u = int(point_matches[camera][0])
          v = int(point_matches[camera][1])
          x1 = View_zenith[camera][v, u]
          x2 = View_azimuth[camera][v, u]
          x3 = Sun_azimuth[camera][v, u]
          y = camera.photo.image()[u, v][0]
          X.append([x1**2, x1*cos(radians(x2-x3))])
          Y.append(y)
      clf = linear_model.LinearRegression()
      model = clf.fit(X, Y)
      return model
  \<close>
\<close>

definition MultiLinearRegression ::
  "sklearn \<Rightarrow> 'cam cameras \<Rightarrow> ('cam, real \<times> real) dict
     \<Rightarrow> ('cam \<Rightarrow> ndarray) \<Rightarrow> ('cam \<Rightarrow> ndarray) \<Rightarrow> ('cam \<Rightarrow> ndarray)
     \<Rightarrow> exn + (real \<times> real) \<times> real" where
  "MultiLinearRegression sk C point_matches Sun_azimuth View_zenith View_azimuth =
     (let X = map (\<lambda>(camera, coord).
                let u = to_index (fst coord);
                    v = to_index (snd coord);
                    x1 = View_zenith camera v u;
                    x2 = View_azimuth camera v u;
                    x3 = Sun_azimuth camera v u
                in [x1 ^ 2, x1 * cos (radians (x2 - x3))]) point_matches;
          Y = map (\<lambda>(camera, coord).
                pixel (photo_image C camera) (to_index (fst coord)) (to_index (snd coord)))
                point_matches
      in LinearRegression_fit sk X Y)"

text \<open>
  A row of \<open>BRDFArray\<close>: the coordinates of the tie point, its intensity, the two
  kernel terms, and the coefficients and the intercept of its local model (columns 0 to 7).
\<close>

record brdf_sample =
  coord_u :: real
  coord_v :: real
  intensity :: real
  kernel_x1 :: real
  kernel_x2 :: real
  coef_0 :: real
  coef_1 :: real
  intercept :: real

text \<open>
  \<^verbatim>\<open>
  def SearchForOutliers(data):
      db = DBSCAN(eps=5000)
      db.fit(data[:, 5:8])
      labels = db.labels_
      # -1 means noise
      noise_mask = (labels != -1)
      denoised = data[noise_mask]
      return denoised
  \<close>
  \<open>data\<close> is \<^verbatim>\<open>np.array(BRDFArray[i])\<close>: for an empty list of rows it has one
  dimension, and \<^verbatim>\<open>data[:, 5:8]\<close> raises \<open>IndexError\<close>.
\<close>

definition SearchForOutliers :: "brdf_sample list \<Rightarrow> exn + brdf_sample list" where
  "SearchForOutliers data =
     (if data = [] then Inl IndexError
      else
        let rows = map (\<lambda>s. [coef_0 s, coef_1 s, intercept s]) data;
            noise_mask = map (\<lambda>r. \<not> DBSCAN_noise 5000 5 rows r) rows
        in Inr (map fst (filter snd (zip data noise_mask))))"

text \<open>
  \<^verbatim>\<open>
  def ImageGaussianMixture(image):
      GMM = GaussianMixture(n_components=2)
      try:
          bands = image.shape[2]
          GMM.fit(image.reshape(-1, 1, bands))
      except IndexError:
          GMM.fit(image.reshape(-1, 1))
      return GMM
  \<close>
  \<open>BRDFImage\<close> passes an array of two dimensions, so \<^verbatim>\<open>image.shape[2]\<close> raises
  \<open>IndexError\<close> and the mixture is fitted to the pixels in row order.
\<close>

definition ImageGaussianMixture ::
  "sklearn \<Rightarrow> nat \<Rightarrow> nat \<Rightarrow> ndarray \<Rightarrow> exn + (real \<Rightarrow> nat)" where
  "ImageGaussianMixture sk height width img =
     GaussianMixture_fit sk (map (\<lambda>(v, u). img v u) (List.product [0..<height] [0..<width]))"

text \<open>
  \<^verbatim>\<open>
  def ZenithPredict(Image_array, features, Sun_azimuth, View_zenith, View_azimuth, clf0, clf1):
      rows, cols = Image_array.shape
      x1 = View_zenith ** 2
      x2 = View_zenith * cos(radians(View_azimuth - Sun_azimuth))
      samples = np.column_stack((Image_array.reshape(-1, 1), x1.reshape(-1, 1), x2.reshape(-1, 1)))
      New_image0 = clf0.predict(samples).reshape(rows, cols)
      New_image1 = clf1.predict(samples).reshape(rows, cols)
      def func(Image0, Image1, features):
          if features == 0:
              return Image0
          else:
              return Image1
      vfunc = np.vectorize(func)
      New_image_array = vfunc(New_image0, New_image1, features)
      return New_image_array
  \<close>
  All the operations work entry by entry.
\<close>

definition ZenithPredict ::
  "ndarray \<Rightarrow> (nat \<Rightarrow> nat \<Rightarrow> nat) \<Rightarrow> ndarray \<Rightarrow> ndarray \<Rightarrow> ndarray
     \<Rightarrow> (real list \<Rightarrow> real) \<Rightarrow> (real list \<Rightarrow> real) \<Rightarrow> ndarray" where
  "ZenithPredict Image_array features Sun_azimuth View_zenith View_azimuth clf0 clf1 =
     (\<lambda>v u.
        let x1 = (View_zenith v u) ^ 2;
            x2 = View_zenith v u * cos (radians (View_azimuth v u - Sun_azimuth v u));
            sample = [Image_array v u, x1, x2];
            New_image0 = clf0 sample;
            New_image1 = clf1 sample
        in if features v u = 0 then New_image0 else New_image1)"

text \<open>
  The loop of \<open>BRDFImage\<close> over the tie points of the camera:
  \<^verbatim>\<open>
  for point_index, coords in camera_matches[camera].items():
      u = int(coords[0])
      v = int(coords[1])
      model = MultiLinearRegression(chunk, point_matches[point_index],
                                    Sun_azimuth, View_zenith, View_azimuth)
      theta = View_zenith[camera][v, u]
      phi_v = View_azimuth[camera][v, u]
      phi_s = Sun_azimuth[camera][v, u]
      y = Image[u, v][0]
      x1 = theta**2
      x2 = theta * cos(radians(phi_v-phi_s))
      feature = GMM.predict(y)[0]
      if feature == 0:
          BRDFArray[0].append([coords[0], coords[1], y, x1, x2,
                               model.coef_[0], model.coef_[1], model.intercept_])
      else:
          BRDFArray[1].append([...the same row...])
  \<close>
  \<open>tie_point_sample\<close> is the row of one tie point with its feature; the rows of
  feature 0 and the other rows make the two lists, in the order of the tie points.
\<close>

definition tie_point_sample ::
  "sklearn \<Rightarrow> 'cam cameras \<Rightarrow> 'cam \<Rightarrow> (nat, ('cam, real \<times> real) dict) dict
     \<Rightarrow> ('cam \<Rightarrow> ndarray) \<Rightarrow> ('cam \<Rightarrow> ndarray) \<Rightarrow> ('cam \<Rightarrow> ndarray)
     \<Rightarrow> (real \<Rightarrow> nat) \<Rightarrow> nat \<times> real \<times> real \<Rightarrow> exn + nat \<times> brdf_sample" where
  "tie_point_sample sk C camera point_matches Sun_azimuth View_zenith View_azimuth GMM item =
     (case item of (point_index, coords) \<Rightarrow>
        let u = to_index (fst coords);
            v = to_index (snd coords)
        in bind (dict_get point_matches point_index) (\<lambda>matches.
           bind (MultiLinearRegression sk C matches Sun_azimuth View_zenith View_azimuth)
             (\<lambda>model.
                let theta = View_zenith camera v u;
                    phi_v = View_azimuth camera v u;
                    phi_s = Sun_azimuth camera v u;
                    y = pixel (photo_image C camera) u v;
                    x1 = theta ^ 2;
                    x2 = theta * cos (radians (phi_v - phi_s));
                    feature = GMM y
                in Inr (feature,
                        \<lparr>coord_u = fst coords, coord_v = snd coords, intensity = y,
                         kernel_x1 = x1, kernel_x2 = x2,
                         coef_0 = fst (fst model), coef_1 = snd (fst model),
                         intercept = snd model\<rparr>))))"

definition solve_tie_points ::
  "sklearn \<Rightarrow> 'cam cameras \<Rightarrow> 'cam \<Rightarrow> (nat, real \<times> real) dict
     \<Rightarrow> (nat, ('cam, real \<times> real) dict) dict
     \<Rightarrow> ('cam \<Rightarrow> ndarray) \<Rightarrow> ('cam \<Rightarrow> ndarray) \<Rightarrow> ('cam \<Rightarrow> ndarray)
     \<Rightarrow> (real \<Rightarrow> nat) \<Rightarrow> exn + brdf_sample list \<times> brdf_sample list" where
  "solve_tie_points sk C camera matches point_matches Sun_azimuth View_zenith View_azimuth GMM =
     bind (for_each
             (tie_point_sample sk C camera point_matches Sun_azimuth View_zenith View_azimuth GMM)
             matches)
       (\<lambda>rows. Inr (map snd (filter (\<lambda>(feature, s). feature = 0) rows),
                     map snd (filter (\<lambda>(feature, s). feature \<noteq> 0) rows)))"

text \<open>
  Denoising and the two global fits:
  \<^verbatim>\<open>
  for i in range(2):
      BRDFArray[i] = np.array(BRDFArray[i])
      denoised[i] = SearchForOutliers(BRDFArray[i])
  X0 = np.column_stack((denoised[0][:, 2], denoised[0][:, 3], denoised[0][:, 4]))
  X1 = np.column_stack((denoised[1][:, 2], denoised[1][:, 3], denoised[1][:, 4]))
  clf0 = linear_model.LinearRegression(fit_intercept=False)
  clf1 = linear_model.LinearRegression(fit_intercept=False)
  clf0.fit(X0, denoised[0][:, 7])
  clf1.fit(X1, denoised[1][:, 7])
  \<close>
\<close>

definition column_stack_234 :: "brdf_sample list \<Rightarrow> real list list" where
  "column_stack_234 denoised = map (\<lambda>s. [intensity s, kernel_x1 s, kernel_x2 s]) denoised"

definition fit_features ::
  "sklearn \<Rightarrow> brdf_sample list \<times> brdf_sample list
     \<Rightarrow> exn + (real list \<Rightarrow> real) \<times> (real list \<Rightarrow> real)" where
  "fit_features sk BRDFArray =
     bind (SearchForOutliers (fst BRDFArray)) (\<lambda>denoised0.
     bind (SearchForOutliers (snd BRDFArray)) (\<lambda>denoised1.
       let X0 = column_stack_234 denoised0;
           X1 = column_stack_234 denoised1
       in bind (LinearRegression_fit_no_intercept sk X0 (map intercept denoised0)) (\<lambda>clf0.
          bind (LinearRegression_fit_no_intercept sk X1 (map intercept denoised1)) (\<lambda>clf1.
            Inr (clf0, clf1)))))"

text \<open>
  \<^verbatim>\<open>
  def BRDFImage(chunk, camera, camera_matches, point_matches,
                Sun_azimuth, View_zenith, View_azimuth):
      width = camera.sensor.width
      height = camera.sensor.height
      Image = camera.photo.image()
      Image_array = np.zeros([height, width])
      for u, v in [(u, v) for u in range(width) for v in range(height)]:
          Image_array[v, u] = Image[u, v][0]
      datatype = {'U8':np.uint8, 'U16':np.uint16, 'U32':np.uint32,
                  'F32':np.float32, 'F64':np.float64}
      PhotoScan_Imtype = Image.data_type
      Imtype = datatype[PhotoScan_Imtype]
      GMM = ImageGaussianMixture(Image_array)
      BRDFZenithImage = PhotoScan.Image(width, height, ' ', PhotoScan_Imtype)
      <the loop over the tie points, the denoising and the two fits>
      features = GMM.predict(Image_array.reshape(-1, 1)).reshape(height, width)
      BRDFZenithArray = ZenithPredict(Image_array, features, Sun_azimuth[camera],
                                      View_zenith[camera], View_azimuth[camera], clf0, clf1)
      <the clipping to the range of Imtype>
      for u, v in [(u, v) for u in range(width) for v in range(height)]:
          BRDFZenithImage[u, v] = (BRDFZenithArray[v, u], )
      return BRDFZenithImage
  \<close>
\<close>

definition BRDFImage ::
  "sklearn \<Rightarrow> 'cam cameras \<Rightarrow> 'cam \<Rightarrow> ('cam, (nat, real \<times> real) dict) dict
     \<Rightarrow> (nat, ('cam, real \<times> real) dict) dict
     \<Rightarrow> ('cam \<Rightarrow> ndarray) \<Rightarrow> ('cam \<Rightarrow> ndarray) \<Rightarrow> ('cam \<Rightarrow> ndarray)
     \<Rightarrow> exn + image" where
  "BRDFImage sk C camera camera_matches point_matches Sun_azimuth View_zenith View_azimuth =
     (let width = fst (sensor_size C camera);
          height = snd (sensor_size C camera);
          Image = photo_image C camera;
          Image_array = fold (\<lambda>(u, v) A. array_set A v u (pixel Image u v))
                          (List.product [0..<width] [0..<height]) zeros;
          PhotoScan_Imtype = data_type Image
      in bind (dict_get datatype_table PhotoScan_Imtype) (\<lambda>Imtype.
         bind (ImageGaussianMixture sk height width Image_array) (\<lambda>GMM.
         let BRDFZenithImage = new_image width height PhotoScan_Imtype
         in bind (dict_get camera_matches camera) (\<lambda>matches.
            bind (solve_tie_points sk C camera matches point_matches
                    Sun_azimuth View_zenith View_azimuth GMM) (\<lambda>BRDFArray.
            bind (fit_features sk BRDFArray) (\<lambda>(clf0, clf1).
              let features = (\<lambda>v u. GMM (Image_array v u));
                  BRDFZenithArray = ZenithPredict Image_array features (Sun_azimuth camera)
                                      (View_zenith camera) (View_azimuth camera) clf0 clf1
              in bind (dtype_range Imtype) (\<lambda>(dtype_min, dtype_max).
                 let clipped = (\<lambda>v u. clip dtype_min dtype_max (BRDFZenithArray v u))
                 in Inr (fold (\<lambda>(u, v) img. image_set img u v (clipped v u))
                           (List.product [0..<width] [0..<height]) BRDFZenithImage))))))))"

text \<open>
  Stand-ins for the fitted estimators in the examples: a mixture that separates
  intensities below 100 from the others, a local regression that returns the coefficients
  1, 1 and the intercept 5, and a global regression that rejects an empty sample matrix
  with \<open>ValueError\<close>, as scikit-learn does, and otherwise predicts three times the
  intensity of a sample minus 200.
\<close>

definition example_sklearn :: sklearn where
  "example_sklearn =
     \<lparr>GaussianMixture_fit = (\<lambda>pixels. Inr (\<lambda>y. if y < 100 then 0 else 1)),
      LinearRegression_fit = (\<lambda>X Y. Inr ((1, 1), 5)),
      LinearRegression_fit_no_intercept =
        (\<lambda>X Y. if X = [] then Inl ValueError else Inr (\<lambda>sample. 3 * hd sample - 200))\<rparr>"

text \<open>
  One camera with a sensor of two by one pixels and an 8-bit image of intensities 50 and
  200, and angle arrays that are zero. In the sparse example one tie point lies on each
  pixel; in the dense example five tie points lie on each pixel.
\<close>

definition example_image :: image where
  "example_image =
     \<lparr>image_width = 2, image_height = 1, data_type = ''U8'',
      pixel = (\<lambda>u v. if u = 0 then 50 else 200)\<rparr>"

definition example_cameras :: "nat cameras" where
  "example_cameras = \<lparr>sensor_size = (\<lambda>camera. (2, 1)), photo_image = (\<lambda>camera. example_image)\<rparr>"

definition example_camera_matches :: "(nat, (nat, real \<times> real) dict) dict" where
  "example_camera_matches = [(0, [(0, (1 / 2, 1 / 2)), (1, (3 / 2, 1 / 2))])]"

definition example_point_matches :: "(nat, (nat, real \<times> real) dict) dict" where
  "example_point_matches = [(0, [(0, (1 / 2, 1 / 2))]), (1, [(0, (3 / 2, 1 / 2))])]"

definition dense_camera_matches :: "(nat, (nat, real \<times> real) dict) dict" where
  "dense_camera_matches =
     [(0, [(0, (1 / 2, 1 / 2)), (1, (1 / 2, 1 / 2)), (2, (1 / 2, 1 / 2)), (3, (1 / 2, 1 / 2)),
           (4, (1 / 2, 1 / 2)), (5, (3 / 2, 1 / 2)), (6, (3 / 2, 1 / 2)), (7, (3 / 2, 1 / 2)),
           (8, (3 / 2, 1 / 2)), (9, (3 / 2, 1 / 2))])]"

definition dense_point_matches :: "(nat, (nat, real \<times> real) dict) dict" where
  "dense_point_matches =
     [(0, [(0, (1 / 2, 1 / 2))]), (1, [(0, (1 / 2, 1 / 2))]), (2, [(0, (1 / 2, 1 / 2))]),
      (3, [(0, (1 / 2, 1 / 2))]), (4, [(0, (1 / 2, 1 / 2))]), (5, [(0, (3 / 2, 1 / 2))]),
      (6, [(0, (3 / 2, 1 / 2))]), (7, [(0, (3 / 2, 1 / 2))]), (8, [(0, (3 / 2, 1 / 2))]),
      (9, [(0, (3 / 2, 1 / 2))])]"

definition no_angle :: "nat \<Rightarrow> ndarray" where
  "no_angle camera = zeros"

text \<open>
  The range into which the pixels of an image of data type tag \<open>t\<close> are clipped: the
  type that the table gives for the tag, and its smallest and largest value.
\<close>

definition image_range :: "string \<Rightarrow> exn + real \<times> real" where
  "image_range t = bind (dict_get datatype_table t) dtype_range"

text \<open>
  The row of a tie point of the examples at the column coordinate \<open>u\<close> with intensity
  \<open>y\<close>.
\<close>

definition example_sample :: "real \<Rightarrow> real \<Rightarrow> brdf_sample" where
  "example_sample u y =
     \<lparr>coord_u = u, coord_v = 1 / 2, intensity = y, kernel_x1 = 0, kernel_x2 = 0,
      coef_0 = 1, coef_1 = 1, intercept = 5\<rparr>"

text \<open>
  The array \<^verbatim>\<open>Image_array\<close> that BRDFImage fills from the pixels of the photo before it
  fits the mixture.
\<close>

definition image_array :: "'cam cameras \<Rightarrow> 'cam \<Rightarrow> ndarray" where
  "image_array C camera =
     fold (\<lambda>(u, v) A. array_set A v u (pixel (photo_image C camera) u v))
       (List.product [0..<fst (sensor_size C camera)] [0..<snd (sensor_size C camera)]) zeros"

section \<open>Properties of CollateMatchList\<close>

lemma update_fresh_key:
  "k \<notin> fst ` set al \<Longrightarrow> AList.update k v al = al @ [(k, v)]"
  by (induction al) auto

lemma fold_collate_point:
  assumes "distinct (map fst pm)" and "fst ` set pm \<inter> fst ` set acc = {}"
  shows "fold collate_point pm (acc, K) =
           (acc @ filter (\<lambda>(p, value). 3 \<le> length value) pm,
            K \<union> fst ` set (filter (\<lambda>(p, value). 3 \<le> length value) pm))"
  using assms
proof (induction pm arbitrary: acc K)
  case Nil
  then show ?case by simp
next
  case (Cons item pm)
  obtain p val where item: "item = (p, val)" by (cases item)
  show ?case
  proof (cases "3 \<le> length val")
    case True
    from Cons.prems item have fresh: "p \<notin> fst ` set acc" by auto
    have step: "collate_point item (acc, K) = (acc @ [(p, val)], insert p K)"
      using True fresh by (simp add: collate_point_def item update_fresh_key)
    have disj: "fst ` set pm \<inter> fst ` set (acc @ [(p, val)]) = {}"
      using Cons.prems item by auto
    have dist: "distinct (map fst pm)" using Cons.prems by simp
    show ?thesis
      using Cons.IH [OF dist disj, of "insert p K"] True step
      by (simp add: item)
  next
    case False
    have step: "collate_point item (acc, K) = (acc, K)"
      using False by (simp add: collate_point_def item)
    have disj: "fst ` set pm \<inter> fst ` set acc = {}"
      using Cons.prems by auto
    have dist: "distinct (map fst pm)" using Cons.prems by simp
    show ?thesis
      using Cons.IH [OF dist disj, of K] False step
      by (simp add: item)
  qed
qed

lemma fold_collate_camera:
  assumes "distinct (map fst cm)" and "fst ` set cm \<inter> fst ` set acc = {}"
  shows "fold (collate_camera K) cm acc =
           acc @ map (\<lambda>(camera, points).
                        (camera, filter (\<lambda>(point, coord). point \<in> K) points)) cm"
  using assms
proof (induction cm arbitrary: acc)
  case Nil
  then show ?case by simp
next
  case (Cons item cm)
  obtain camera points where item: "item = (camera, points)" by (cases item)
  from Cons.prems item have fresh: "camera \<notin> fst ` set acc" by auto
  have step: "collate_camera K item acc =
                acc @ [(camera, filter (\<lambda>(point, coord). point \<in> K) points)]"
    using fresh by (simp add: collate_camera_def item update_fresh_key)
  have disj: "fst ` set cm \<inter>
                fst ` set (acc @ [(camera, filter (\<lambda>(point, coord). point \<in> K) points)]) = {}"
    using Cons.prems item by auto
  have dist: "distinct (map fst cm)" using Cons.prems by simp
  show ?case
    using Cons.IH [OF dist disj] step by (simp add: item)
qed

lemma keys_filter_retained:
  assumes "distinct (map fst pm)"
  shows "fst ` set (filter (\<lambda>(p, value). 3 \<le> length value) pm) = retained pm"
proof -
  have "\<And>p value. (p, value) \<in> set pm \<longleftrightarrow> map_of pm p = Some value"
    using assms by simp
  then show ?thesis
    by (force simp: retained_def image_iff)
qed

lemma map_of_filter_retained:
  assumes "distinct (map fst pm)"
  shows "map_of (filter (\<lambda>(p, value). 3 \<le> length value) pm) = map_of pm |` retained pm"
proof
  fix p
  have dist: "distinct (map fst (filter (\<lambda>(p, value). 3 \<le> length value) pm))"
    using assms by (simp add: distinct_map_filter)
  show "map_of (filter (\<lambda>(p, value). 3 \<le> length value) pm) p = (map_of pm |` retained pm) p"
  proof (cases "map_of pm p")
    case None
    then have "p \<notin> fst ` set pm" by (simp add: map_of_eq_None_iff)
    then have "p \<notin> fst ` set (filter (\<lambda>(p, value). 3 \<le> length value) pm)" by force
    then have "map_of (filter (\<lambda>(p, value). 3 \<le> length value) pm) p = None"
      by (simp add: map_of_eq_None_iff)
    with None show ?thesis by (simp add: restrict_map_def)
  next
    case (Some val)
    then have mem: "(p, val) \<in> set pm" by (rule map_of_SomeD)
    show ?thesis
    proof (cases "3 \<le> length val")
      case True
      with mem have "(p, val) \<in> set (filter (\<lambda>(p, value). 3 \<le> length value) pm)" by simp
      then have "map_of (filter (\<lambda>(p, value). 3 \<le> length value) pm) p = Some val"
        using dist by simp
      moreover have "p \<in> retained pm" using Some True by (simp add: retained_def)
      ultimately show ?thesis using Some by simp
    next
      case False
      have "p \<notin> retained pm" using Some False by (simp add: retained_def)
      moreover have "p \<notin> fst ` set (filter (\<lambda>(p, value). 3 \<le> length value) pm)"
      proof
        assume "p \<in> fst ` set (filter (\<lambda>(p, value). 3 \<le> length value) pm)"
        then obtain w where w: "(p, w) \<in> set pm" "3 \<le> length w" by auto
        from w(1) assms have "map_of pm p = Some w" by simp
        with Some w(2) False show False by simp
      qed
      then have "map_of (filter (\<lambda>(p, value). 3 \<le> length value) pm) p = None"
        by (simp add: map_of_eq_None_iff)
      ultimately show ?thesis by simp
    qed
  qed
qed

text \<open>
  Claim C1. For well-formed dictionaries, CollateMatchList returns \<open>point_matches\<close>
  restricted to the tie points that have at least three entries there (a tie point is a
  key of the new \<open>point_matches\<close> if and only if it has at least three entries in the
  old one), and every camera's table of \<open>camera_matches\<close> restricted to the same set of
  tie points; no camera is dropped and the order of the items is kept.
\<close>

theorem CollateMatchList_retains_three_observations:
  assumes "well_formed_dict point_matches" and "well_formed_dict camera_matches"
  shows "CollateMatchList camera_matches point_matches =
           (map (\<lambda>(camera, points).
                   (camera, filter (\<lambda>(point, coord). point \<in> retained point_matches) points))
              camera_matches,
            filter (\<lambda>(point_index, value). 3 \<le> length value) point_matches)
         \<and> (\<forall>p. p \<in> dict_keys (snd (CollateMatchList camera_matches point_matches))
                  \<longleftrightarrow> (\<exists>value. map_of point_matches p = Some value \<and> 3 \<le> length value))
         \<and> map_of (snd (CollateMatchList camera_matches point_matches)) =
             map_of point_matches |` retained point_matches
         \<and> (\<forall>camera. map_of (fst (CollateMatchList camera_matches point_matches)) camera =
              map_option (filter (\<lambda>(point, coord). point \<in> retained point_matches))
                (map_of camera_matches camera))"
proof -
  let ?keep = "\<lambda>(point_index, value). 3 \<le> length (value :: ('a \<times> 'b) list)"
  let ?restrict = "\<lambda>(camera :: 'c, points :: (nat \<times> 'd) list).
     (camera, filter (\<lambda>(point, coord). point \<in> retained point_matches) points)"
  have dp: "distinct (map fst point_matches)" and dc: "distinct (map fst camera_matches)"
    using assms by (simp_all add: well_formed_dict_def)
  have points: "fold collate_point point_matches ([], {}) =
                  (filter ?keep point_matches, retained point_matches)"
    using fold_collate_point [OF dp, of "[]" "{}"] keys_filter_retained [OF dp] by simp
  have cameras: "fold (collate_camera (retained point_matches)) camera_matches [] =
                   map ?restrict camera_matches"
    using fold_collate_camera [OF dc, of "[]" "retained point_matches"] by simp
  have eq: "CollateMatchList camera_matches point_matches =
              (map ?restrict camera_matches, filter ?keep point_matches)"
    by (simp add: CollateMatchList_def points cameras)
  have keys: "\<forall>p. p \<in> dict_keys (filter ?keep point_matches)
                 \<longleftrightarrow> (\<exists>value. map_of point_matches p = Some value \<and> 3 \<le> length value)"
    using keys_filter_retained [OF dp] by (simp add: dict_keys_def retained_def)
  have look: "\<forall>camera. map_of (map ?restrict camera_matches) camera =
                map_option (filter (\<lambda>(point, coord). point \<in> retained point_matches))
                  (map_of camera_matches camera)"
  proof
    fix camera
    show "map_of (map ?restrict camera_matches) camera =
            map_option (filter (\<lambda>(point, coord). point \<in> retained point_matches))
              (map_of camera_matches camera)"
      by (simp add: map_of_map)
  qed
  show ?thesis
    using keys look map_of_filter_retained [OF dp] by (simp add: eq)
qed

theorem CollateMatchList_retains_three_observations_witness:
  "well_formed_dict
     [(0::nat, [(1::nat, (5::int, 5::int)), (2, (6, 5)), (3, (7, 5)), (4, (8, 5))]),
      (1, [(1, (1, 1)), (2, (2, 1))]),
      (2, [(1, (9, 9)), (2, (8, 9)), (3, (7, 9)), (4, (6, 9))])]
   \<and> well_formed_dict
     [(1::nat, [(0::nat, (5::int, 5::int)), (1, (1, 1)), (2, (9, 9))]),
      (2, [(0, (6, 5)), (1, (2, 1)), (2, (8, 9))]),
      (3, [(0, (7, 5)), (2, (7, 9))]),
      (4, [(0, (8, 5)), (2, (6, 9))])]
   \<and> CollateMatchList
     [(1::nat, [(0::nat, (5::int, 5::int)), (1, (1, 1)), (2, (9, 9))]),
      (2, [(0, (6, 5)), (1, (2, 1)), (2, (8, 9))]),
      (3, [(0, (7, 5)), (2, (7, 9))]),
      (4, [(0, (8, 5)), (2, (6, 9))])]
     [(0::nat, [(1::nat, (5::int, 5::int)), (2, (6, 5)), (3, (7, 5)), (4, (8, 5))]),
      (1, [(1, (1, 1)), (2, (2, 1))]),
      (2, [(1, (9, 9)), (2, (8, 9)), (3, (7, 9)), (4, (6, 9))])]
   = ([(1, [(0, (5, 5)), (2, (9, 9))]),
       (2, [(0, (6, 5)), (2, (8, 9))]),
       (3, [(0, (7, 5)), (2, (7, 9))]),
       (4, [(0, (8, 5)), (2, (6, 9))])],
      [(0, [(1, (5, 5)), (2, (6, 5)), (3, (7, 5)), (4, (8, 5))]),
       (2, [(1, (9, 9)), (2, (8, 9)), (3, (7, 9)), (4, (6, 9))])])"
  using CollateMatchList_retains_three_observations
    [of "[(0::nat, [(1::nat, (5::int, 5::int)), (2, (6, 5)), (3, (7, 5)), (4, (8, 5))]),
      (1, [(1, (1, 1)), (2, (2, 1))]),
      (2, [(1, (9, 9)), (2, (8, 9)), (3, (7, 9)), (4, (6, 9))])]"
     "[(1::nat, [(0::nat, (5::int, 5::int)), (1, (1, 1)), (2, (9, 9))]),
      (2, [(0, (6, 5)), (1, (2, 1)), (2, (8, 9))]),
      (3, [(0, (7, 5)), (2, (7, 9))]),
      (4, [(0, (8, 5)), (2, (6, 9))])]"]
  by (simp add: well_formed_dict_def retained_def)

section \<open>Properties of the engine operations\<close>

lemma fold_max_Max: "fold max vs (v::real) = Max (set (v # vs))"
  by (rule Max.set_eq_fold [symmetric])

lemma max_value_exceeds:
  assumes "max_value f > t" and "0 \<le> t"
  shows "\<exists>v \<in> set (crit_values f). v > t"
proof (cases "crit_values f")
  case Nil
  with assms show ?thesis by (simp add: max_value_def)
next
  case (Cons v vs)
  then have "max_value f = Max (set (v # vs))"
    by (simp only: max_value_def list.case fold_max_Max)
  with assms(1) have "Max (set (v # vs)) > t" by simp
  then have "\<exists>a \<in> set (v # vs). t < a"
    by (subst (asm) Max_gr_iff) auto
  with Cons show ?thesis by simp
qed

lemma max_value_bounds:
  assumes "max_value f \<le> t"
  shows "\<forall>v \<in> set (crit_values f). v \<le> t"
proof (cases "crit_values f")
  case Nil
  then show ?thesis by simp
next
  case (Cons v vs)
  then have "max_value f = Max (set (v # vs))"
    by (simp only: max_value_def list.case fold_max_Max)
  with assms have "Max (set (v # vs)) \<le> t" by simp
  then have "\<forall>a \<in> set (v # vs). a \<le> t"
    by (subst (asm) Max_le_iff) auto
  with Cons show ?thesis by simp
qed

lemma filter_selected_zip:
  "length ps = length vs \<Longrightarrow>
   length (filter selected (map (\<lambda>(p, v). p\<lparr>selected := (v > t)\<rparr>) (zip ps vs))) =
     length (filter (\<lambda>v. v > (t::real)) vs)"
  by (induction ps vs rule: list_induct2) auto

lemma filter_unselected_zip:
  "length ps = length vs \<Longrightarrow>
   map track_id (filter (\<lambda>p. \<not> selected p) (map (\<lambda>(p, v). p\<lparr>selected := (v > t)\<rparr>) (zip ps vs))) =
     map (track_id \<circ> fst) (filter (\<lambda>(p, v). \<not> v > (t::real)) (zip ps vs))"
  by (induction ps vs rule: list_induct2) auto

lemma length_points_selectPoints:
  "length (crit_values f) = length (points c) \<Longrightarrow>
   length (points (selectPoints f t c)) = length (points c)"
  by (simp add: selectPoints_def)

lemma track_ids_zip:
  "length ps = length vs \<Longrightarrow>
   map track_id (map (\<lambda>(p, v). p\<lparr>selected := (v > (t::real))\<rparr>) (zip ps vs)) = map track_id ps"
  by (induction ps vs rule: list_induct2) auto

lemma track_ids_selectPoints:
  "length (crit_values f) = length (points c) \<Longrightarrow>
   map track_id (points (selectPoints f t c)) = map track_id (points c)"
  using track_ids_zip [of "points c" "crit_values f" t]
  by (simp add: selectPoints_def)

lemma nselected_selectPoints:
  "length (crit_values f) = length (points c) \<Longrightarrow>
   nselected (selectPoints f t c) = length (filter (\<lambda>v. v > t) (crit_values f))"
  using filter_selected_zip [of "points c" "crit_values f" t]
  by (simp add: nselected_def selectPoints_def)

lemma length_removeSelectedPoints:
  "length (points (removeSelectedPoints c)) + nselected c = length (points c)"
proof -
  have "length (filter (\<lambda>p. \<not> selected p) (points c)) + length (filter selected (points c))
          = length (points c)"
    using sum_length_filter_compl [of selected "points c"] by simp
  then show ?thesis by (simp add: removeSelectedPoints_def nselected_def)
qed

lemma removeSelectedPoints_none:
  "nselected c = 0 \<Longrightarrow> points (removeSelectedPoints c) = points c"
  by (simp add: removeSelectedPoints_def nselected_def filter_empty_conv filter_id_conv)

lemma points_optimizeCameras [simp]: "points (optimizeCameras E flags c) = points c"
  by (simp add: optimizeCameras_def)

lemma tiepoint_accuracy_optimizeCameras [simp]:
  "tiepoint_accuracy (optimizeCameras E flags c) = tiepoint_accuracy c"
  by (simp add: optimizeCameras_def)

lemma optimize_calls_optimizeCameras [simp]:
  "optimize_calls (optimizeCameras E flags c) = optimize_calls c @ [flags]"
  by (simp add: optimizeCameras_def)

lemma length_filter_init [simp]:
  "length (crit_values (filter_init E crit c)) = length (points c)"
  by (simp add: filter_init_def)

lemma points_resetSelection:
  "map track_id (points (resetSelection c)) = map track_id (points c)"
  by (simp add: resetSelection_def comp_def)

lemma length_points_resetSelection [simp]:
  "length (points (resetSelection c)) = length (points c)"
  by (simp add: resetSelection_def)

lemma selected_pos_if_exceeds:
  assumes "\<exists>v \<in> set vs. v > (t::real)"
  shows "0 < length (filter (\<lambda>v. v > t) vs)"
  using assms by (simp add: filter_empty_conv)

lemma kept_all_if_none_exceeds:
  "length ps = length vs \<Longrightarrow> length (filter (\<lambda>v. v > (t::real)) vs) = 0 \<Longrightarrow>
   filter (\<lambda>(p :: tie_point, v). \<not> v > t) (zip ps vs) = zip ps vs"
  by (induction ps vs rule: list_induct2) (auto split: if_splits)

lemma track_ids_removeSelectedPoints_selectPoints:
  assumes "length (crit_values f) = length (points c)"
  shows "map track_id (points (removeSelectedPoints (selectPoints f t c))) =
           map (track_id \<circ> fst) (filter (\<lambda>(p, v). \<not> v > t) (zip (points c) (crit_values f)))"
  using filter_unselected_zip [of "points c" "crit_values f" t] assms
  by (simp add: removeSelectedPoints_def selectPoints_def)

section \<open>One pass through the body of a reduction loop\<close>

lemma RU_iteration_widen:
  assumes m: "filter_matches_chunk s"
    and w: "real (length (filter (\<lambda>v. v > threshold s) (crit_values (fltr s))))
              \<ge> real (length (points (chunk s))) / 2 \<and> threshold s \<le> 50"
  shows "threshold (RU_iteration E i s) = threshold s + 1"
    and "fltr (RU_iteration E i s) = fltr s"
    and "map track_id (points (chunk (RU_iteration E i s))) = map track_id (points (chunk s))"
    and "optimize_calls (chunk (RU_iteration E i s)) = optimize_calls (chunk s)"
    and "filter_matches_chunk (RU_iteration E i s)"
proof -
  let ?c1 = "selectPoints (fltr s) (threshold s) (chunk s)"
  have len: "length (crit_values (fltr s)) = length (points (chunk s))"
    using m by (simp add: filter_matches_chunk_def)
  have k: "nselected ?c1 = length (filter (\<lambda>v. v > threshold s) (crit_values (fltr s)))"
    by (rule nselected_selectPoints [OF len])
  have n: "length (points ?c1) = length (points (chunk s))"
    by (rule length_points_selectPoints [OF len])
  have ids: "map track_id (points ?c1) = map track_id (points (chunk s))"
    by (rule track_ids_selectPoints [OF len])
  have calls: "optimize_calls (resetSelection ?c1) = optimize_calls (chunk s)"
    by (simp add: resetSelection_def selectPoints_def)
  have eq: "RU_iteration E i s = s\<lparr>chunk := resetSelection ?c1, threshold := threshold s + 1\<rparr>"
    by (simp only: RU_iteration_def Let_def k n w if_True simp_thms)
  show "threshold (RU_iteration E i s) = threshold s + 1" by (simp add: eq)
  show "fltr (RU_iteration E i s) = fltr s" by (simp add: eq)
  show "map track_id (points (chunk (RU_iteration E i s))) = map track_id (points (chunk s))"
    using ids by (simp add: eq points_resetSelection)
  show "optimize_calls (chunk (RU_iteration E i s)) = optimize_calls (chunk s)"
    using calls by (simp add: eq)
  show "filter_matches_chunk (RU_iteration E i s)"
    using len n by (simp add: eq filter_matches_chunk_def)
qed

lemma RU_iteration_remove:
  assumes m: "filter_matches_chunk s"
    and w: "\<not> (real (length (filter (\<lambda>v. v > threshold s) (crit_values (fltr s))))
              \<ge> real (length (points (chunk s))) / 2 \<and> threshold s \<le> 50)"
  shows "threshold (RU_iteration E i s) = i"
    and "length (points (chunk (RU_iteration E i s)))
           + length (filter (\<lambda>v. v > threshold s) (crit_values (fltr s)))
         = length (points (chunk s))"
    and "map track_id (points (chunk (RU_iteration E i s))) =
           map (track_id \<circ> fst)
             (filter (\<lambda>(p, v). \<not> v > threshold s) (zip (points (chunk s)) (crit_values (fltr s))))"
    and "optimize_calls (chunk (RU_iteration E i s)) = optimize_calls (chunk s) @ [basic_fit]"
    and "tiepoint_accuracy (chunk (RU_iteration E i s)) = tiepoint_accuracy (chunk s)"
    and "filter_matches_chunk (RU_iteration E i s)"
    and "fltr (RU_iteration E i s) =
           filter_init E ReconstructionUncertainty (chunk (RU_iteration E i s))"
proof -
  let ?c1 = "selectPoints (fltr s) (threshold s) (chunk s)"
  let ?c3 = "optimizeCameras E basic_fit (removeSelectedPoints ?c1)"
  have len: "length (crit_values (fltr s)) = length (points (chunk s))"
    using m by (simp add: filter_matches_chunk_def)
  have k: "nselected ?c1 = length (filter (\<lambda>v. v > threshold s) (crit_values (fltr s)))"
    by (rule nselected_selectPoints [OF len])
  have n: "length (points ?c1) = length (points (chunk s))"
    by (rule length_points_selectPoints [OF len])
  have eq: "RU_iteration E i s =
              \<lparr>chunk = ?c3, fltr = filter_init E ReconstructionUncertainty ?c3, threshold = i\<rparr>"
    by (simp only: RU_iteration_def Let_def k n w if_False simp_thms)
  show "threshold (RU_iteration E i s) = i" by (simp add: eq)
  show "length (points (chunk (RU_iteration E i s)))
           + length (filter (\<lambda>v. v > threshold s) (crit_values (fltr s)))
         = length (points (chunk s))"
    using length_removeSelectedPoints [of ?c1] k n by (simp add: eq)
  show "map track_id (points (chunk (RU_iteration E i s))) =
           map (track_id \<circ> fst)
             (filter (\<lambda>(p, v). \<not> v > threshold s) (zip (points (chunk s)) (crit_values (fltr s))))"
    using track_ids_removeSelectedPoints_selectPoints [OF len] by (simp add: eq)
  show "optimize_calls (chunk (RU_iteration E i s)) = optimize_calls (chunk s) @ [basic_fit]"
    by (simp add: eq removeSelectedPoints_def selectPoints_def)
  show "tiepoint_accuracy (chunk (RU_iteration E i s)) = tiepoint_accuracy (chunk s)"
    by (simp add: eq removeSelectedPoints_def selectPoints_def)
  show "filter_matches_chunk (RU_iteration E i s)"
    by (simp add: eq filter_matches_chunk_def)
  show "fltr (RU_iteration E i s) =
           filter_init E ReconstructionUncertainty (chunk (RU_iteration E i s))"
    by (simp add: eq)
qed

lemma PA_iteration_widen:
  assumes m: "filter_matches_chunk s"
    and w: "real (length (filter (\<lambda>v. v > threshold s) (crit_values (fltr s))))
              \<ge> real (length (points (chunk s))) / 2 \<and> threshold s \<le> 3"
  shows "threshold (PA_iteration E i s) = float_add (threshold s) (py_float (1 / 10))"
    and "fltr (PA_iteration E i s) = fltr s"
    and "map track_id (points (chunk (PA_iteration E i s))) = map track_id (points (chunk s))"
    and "optimize_calls (chunk (PA_iteration E i s)) = optimize_calls (chunk s)"
    and "filter_matches_chunk (PA_iteration E i s)"
proof -
  let ?c1 = "selectPoints (fltr s) (threshold s) (chunk s)"
  have len: "length (crit_values (fltr s)) = length (points (chunk s))"
    using m by (simp add: filter_matches_chunk_def)
  have k: "nselected ?c1 = length (filter (\<lambda>v. v > threshold s) (crit_values (fltr s)))"
    by (rule nselected_selectPoints [OF len])
  have n: "length (points ?c1) = length (points (chunk s))"
    by (rule length_points_selectPoints [OF len])
  have ids: "map track_id (points ?c1) = map track_id (points (chunk s))"
    by (rule track_ids_selectPoints [OF len])
  have calls: "optimize_calls (resetSelection ?c1) = optimize_calls (chunk s)"
    by (simp add: resetSelection_def selectPoints_def)
  have eq: "PA_iteration E i s = s\<lparr>chunk := resetSelection ?c1,
                threshold := float_add (threshold s) (py_float (1 / 10))\<rparr>"
    by (simp only: PA_iteration_def Let_def k n w if_True simp_thms)
  show "threshold (PA_iteration E i s) = float_add (threshold s) (py_float (1 / 10))" by (simp add: eq)
  show "fltr (PA_iteration E i s) = fltr s" by (simp add: eq)
  show "map track_id (points (chunk (PA_iteration E i s))) = map track_id (points (chunk s))"
    using ids by (simp add: eq points_resetSelection)
  show "optimize_calls (chunk (PA_iteration E i s)) = optimize_calls (chunk s)"
    using calls by (simp add: eq)
  show "filter_matches_chunk (PA_iteration E i s)"
    using len n by (simp add: eq filter_matches_chunk_def)
qed

lemma PA_iteration_remove:
  assumes m: "filter_matches_chunk s"
    and w: "\<not> (real (length (filter (\<lambda>v. v > threshold s) (crit_values (fltr s))))
              \<ge> real (length (points (chunk s))) / 2 \<and> threshold s \<le> 3)"
  shows "threshold (PA_iteration E i s) = i"
    and "length (points (chunk (PA_iteration E i s)))
           + length (filter (\<lambda>v. v > threshold s) (crit_values (fltr s)))
         = length (points (chunk s))"
    and "map track_id (points (chunk (PA_iteration E i s))) =
           map (track_id \<circ> fst)
             (filter (\<lambda>(p, v). \<not> v > threshold s) (zip (points (chunk s)) (crit_values (fltr s))))"
    and "optimize_calls (chunk (PA_iteration E i s)) = optimize_calls (chunk s) @ [basic_fit]"
    and "tiepoint_accuracy (chunk (PA_iteration E i s)) = tiepoint_accuracy (chunk s)"
    and "filter_matches_chunk (PA_iteration E i s)"
    and "fltr (PA_iteration E i s) =
           filter_init E ProjectionAccuracy (chunk (PA_iteration E i s))"
proof -
  let ?c1 = "selectPoints (fltr s) (threshold s) (chunk s)"
  let ?c3 = "optimizeCameras E basic_fit (removeSelectedPoints ?c1)"
  have len: "length (crit_values (fltr s)) = length (points (chunk s))"
    using m by (simp add: filter_matches_chunk_def)
  have k: "nselected ?c1 = length (filter (\<lambda>v. v > threshold s) (crit_values (fltr s)))"
    by (rule nselected_selectPoints [OF len])
  have n: "length (points ?c1) = length (points (chunk s))"
    by (rule length_points_selectPoints [OF len])
  have eq: "PA_iteration E i s =
              \<lparr>chunk = ?c3, fltr = filter_init E ProjectionAccuracy ?c3, threshold = i\<rparr>"
    by (simp only: PA_iteration_def Let_def k n w if_False simp_thms)
  show "threshold (PA_iteration E i s) = i" by (simp add: eq)
  show "length (points (chunk (PA_iteration E i s)))
           + length (filter (\<lambda>v. v > threshold s) (crit_values (fltr s)))
         = length (points (chunk s))"
    using length_removeSelectedPoints [of ?c1] k n by (simp add: eq)
  show "map track_id (points (chunk (PA_iteration E i s))) =
           map (track_id \<circ> fst)
             (filter (\<lambda>(p, v). \<not> v > threshold s) (zip (points (chunk s)) (crit_values (fltr s))))"
    using track_ids_removeSelectedPoints_selectPoints [OF len] by (simp add: eq)
  show "optimize_calls (chunk (PA_iteration E i s)) = optimize_calls (chunk s) @ [basic_fit]"
    by (simp add: eq removeSelectedPoints_def selectPoints_def)
  show "tiepoint_accuracy (chunk (PA_iteration E i s)) = tiepoint_accuracy (chunk s)"
    by (simp add: eq removeSelectedPoints_def selectPoints_def)
  show "filter_matches_chunk (PA_iteration E i s)"
    by (simp add: eq filter_matches_chunk_def)
  show "fltr (PA_iteration E i s) =
           filter_init E ProjectionAccuracy (chunk (PA_iteration E i s))"
    by (simp add: eq)
qed

lemma RE_iteration_widen:
  assumes m: "filter_matches_chunk s"
    and w: "real (length (filter (\<lambda>v. v > threshold s) (crit_values (fltr s))))
              \<ge> real (length (points (chunk s))) / 10"
  shows "threshold (RE_iteration E i s) = float_add (threshold s) (py_float (1 / 100))"
    and "fltr (RE_iteration E i s) = fltr s"
    and "map track_id (points (chunk (RE_iteration E i s))) = map track_id (points (chunk s))"
    and "optimize_calls (chunk (RE_iteration E i s)) = optimize_calls (chunk s)"
    and "filter_matches_chunk (RE_iteration E i s)"
proof -
  let ?c1 = "selectPoints (fltr s) (threshold s) (chunk s)"
  have len: "length (crit_values (fltr s)) = length (points (chunk s))"
    using m by (simp add: filter_matches_chunk_def)
  have k: "nselected ?c1 = length (filter (\<lambda>v. v > threshold s) (crit_values (fltr s)))"
    by (rule nselected_selectPoints [OF len])
  have n: "length (points ?c1) = length (points (chunk s))"
    by (rule length_points_selectPoints [OF len])
  have ids: "map track_id (points ?c1) = map track_id (points (chunk s))"
    by (rule track_ids_selectPoints [OF len])
  have calls: "optimize_calls (resetSelection ?c1) = optimize_calls (chunk s)"
    by (simp add: resetSelection_def selectPoints_def)
  have eq: "RE_iteration E i s = s\<lparr>chunk := resetSelection ?c1,
                threshold := float_add (threshold s) (py_float (1 / 100))\<rparr>"
    by (simp only: RE_iteration_def Let_def k n w if_True simp_thms)
  show "threshold (RE_iteration E i s) = float_add (threshold s) (py_float (1 / 100))" by (simp add: eq)
  show "fltr (RE_iteration E i s) = fltr s" by (simp add: eq)
  show "map track_id (points (chunk (RE_iteration E i s))) = map track_id (points (chunk s))"
    using ids by (simp add: eq points_resetSelection)
  show "optimize_calls (chunk (RE_iteration E i s)) = optimize_calls (chunk s)"
    using calls by (simp add: eq)
  show "filter_matches_chunk (RE_iteration E i s)"
    using len n by (simp add: eq filter_matches_chunk_def)
qed

lemma RE_iteration_remove:
  assumes m: "filter_matches_chunk s"
    and w: "\<not> (real (length (filter (\<lambda>v. v > threshold s) (crit_values (fltr s))))
              \<ge> real (length (points (chunk s))) / 10)"
  shows "threshold (RE_iteration E i s) = i"
    and "length (points (chunk (RE_iteration E i s)))
           + length (filter (\<lambda>v. v > threshold s) (crit_values (fltr s)))
         = length (points (chunk s))"
    and "map track_id (points (chunk (RE_iteration E i s))) =
           map (track_id \<circ> fst)
             (filter (\<lambda>(p, v). \<not> v > threshold s) (zip (points (chunk s)) (crit_values (fltr s))))"
    and "optimize_calls (chunk (RE_iteration E i s)) = optimize_calls (chunk s) @ [full_fit]"
    and "tiepoint_accuracy (chunk (RE_iteration E i s)) = tiepoint_accuracy (chunk s)"
    and "filter_matches_chunk (RE_iteration E i s)"
    and "fltr (RE_iteration E i s) =
           filter_init E ReprojectionError (chunk (RE_iteration E i s))"
proof -
  let ?c1 = "selectPoints (fltr s) (threshold s) (chunk s)"
  let ?c3 = "optimizeCameras E full_fit (removeSelectedPoints ?c1)"
  have len: "length (crit_values (fltr s)) = length (points (chunk s))"
    using m by (simp add: filter_matches_chunk_def)
  have k: "nselected ?c1 = length (filter (\<lambda>v. v > threshold s) (crit_values (fltr s)))"
    by (rule nselected_selectPoints [OF len])
  have n: "length (points ?c1) = length (points (chunk s))"
    by (rule length_points_selectPoints [OF len])
  have eq: "RE_iteration E i s =
              \<lparr>chunk = ?c3, fltr = filter_init E ReprojectionError ?c3, threshold = i\<rparr>"
    by (simp only: RE_iteration_def Let_def k n w if_False simp_thms)
  show "threshold (RE_iteration E i s) = i" by (simp add: eq)
  show "length (points (chunk (RE_iteration E i s)))
           + length (filter (\<lambda>v. v > threshold s) (crit_values (fltr s)))
         = length (points (chunk s))"
    using length_removeSelectedPoints [of ?c1] k n by (simp add: eq)
  show "map track_id (points (chunk (RE_iteration E i s))) =
           map (track_id \<circ> fst)
             (filter (\<lambda>(p, v). \<not> v > threshold s) (zip (points (chunk s)) (crit_values (fltr s))))"
    using track_ids_removeSelectedPoints_selectPoints [OF len] by (simp add: eq)
  show "optimize_calls (chunk (RE_iteration E i s)) = optimize_calls (chunk s) @ [full_fit]"
    by (simp add: eq removeSelectedPoints_def selectPoints_def)
  show "tiepoint_accuracy (chunk (RE_iteration E i s)) = tiepoint_accuracy (chunk s)"
    by (simp add: eq removeSelectedPoints_def selectPoints_def)
  show "filter_matches_chunk (RE_iteration E i s)"
    by (simp add: eq filter_matches_chunk_def)
  show "fltr (RE_iteration E i s) =
           filter_init E ReprojectionError (chunk (RE_iteration E i s))"
    by (simp add: eq)
qed

lemma kept_ids_if_none_exceeds:
  assumes "length (ps :: tie_point list) = length vs"
    and "length (filter (\<lambda>v. v > (t::real)) vs) = 0"
  shows "map (track_id \<circ> fst) (filter (\<lambda>(p, v). \<not> v > t) (zip ps vs)) = map track_id ps"
proof -
  have "map (track_id \<circ> fst) (zip ps vs) = map track_id ps"
    using assms(1) by (induction ps vs rule: list_induct2) auto
  then show ?thesis
    using kept_all_if_none_exceeds [OF assms] by simp
qed

lemma RU_progress:
  assumes m: "filter_matches_chunk s" and g: "max_value (fltr s) > 10"
  shows "strict_progress s (RU_iteration E 10 s) \<or> threshold_fell_back s (RU_iteration E 10 s)"
proof -
  let ?k = "length (filter (\<lambda>v. v > threshold s) (crit_values (fltr s)))"
  let ?W = "real ?k \<ge> real (length (points (chunk s))) / 2 \<and> threshold s \<le> 50"
  have len: "length (points (chunk s)) = length (crit_values (fltr s))"
    using m by (simp add: filter_matches_chunk_def)
  show ?thesis
  proof (cases ?W)
    case True
    from RU_iteration_widen(1) [OF m True, of E 10]
    show ?thesis by (simp add: strict_progress_def)
  next
    case False
    note r = RU_iteration_remove [OF m False, of E 10]
    show ?thesis
    proof (cases "?k = 0")
      case k0: True
      from g obtain v where v: "v \<in> set (crit_values (fltr s))" "v > 10"
        using max_value_exceeds [of 10 "fltr s"] by auto
      have "\<not> v > threshold s"
        using k0 v(1) by (simp add: filter_empty_conv)
      with v(2) have "10 < threshold s" by simp
      moreover have "map track_id (points (chunk (RU_iteration E 10 s))) =
                       map track_id (points (chunk s))"
        using r(3) kept_ids_if_none_exceeds [OF len k0] by simp
      ultimately show ?thesis
        using r(1) k0 by (simp add: threshold_fell_back_def)
    next
      case kpos: False
      then have "0 < ?k" by simp
      with r(2) have "length (points (chunk (RU_iteration E 10 s))) < length (points (chunk s))"
        by linarith
      then show ?thesis by (simp add: strict_progress_def)
    qed
  qed
qed

lemma RU_iteration_matches:
  "filter_matches_chunk s \<Longrightarrow> filter_matches_chunk (RU_iteration E i s)"
  using RU_iteration_widen(5) RU_iteration_remove(6) by blast

lemma PA_iteration_matches:
  "filter_matches_chunk s \<Longrightarrow> filter_matches_chunk (PA_iteration E i s)"
  using PA_iteration_widen(5) PA_iteration_remove(6) by blast

lemma RE_iteration_matches:
  "filter_matches_chunk s \<Longrightarrow> filter_matches_chunk (RE_iteration E i s)"
  using RE_iteration_widen(5) RE_iteration_remove(6) by blast

lemma start_matches:
  "filter_matches_chunk (RU_start E c i)"
  "filter_matches_chunk (PA_start E c i)"
  "filter_matches_chunk (RE_start E c i)"
  by (simp_all add: filter_matches_chunk_def RU_start_def PA_start_def RE_start_def)

text \<open>
  What a pass of the RU loop (initial threshold 10) does achieve. The filter object holds
  one value per tie point when the phase starts and after each pass. In every pass either
  the number of tie points strictly decreases, or the threshold strictly increases, or no
  tie point exceeded the current threshold, nothing is removed and the threshold drops
  back to its initial value.
\<close>

theorem RU_iteration_progress:
  "filter_matches_chunk (RU_start E c 10)
   \<and> (filter_matches_chunk s \<longrightarrow> filter_matches_chunk (RU_iteration E 10 s))
   \<and> (filter_matches_chunk s \<and> max_value (fltr s) > 10 \<longrightarrow>
        (strict_progress s (RU_iteration E 10 s) \<or> threshold_fell_back s (RU_iteration E 10 s))
        \<and> (length (points (chunk (RU_iteration E 10 s))) < length (points (chunk s))
           \<or> threshold (RU_iteration E 10 s) \<noteq> threshold s))"
proof -
  have ru: "(length (points (chunk (RU_iteration E 10 s))) < length (points (chunk s))
           \<or> threshold (RU_iteration E 10 s) \<noteq> threshold s)"
    if "filter_matches_chunk s" "max_value (fltr s) > 10"
    using RU_progress [OF that, of E]
    by (auto simp: strict_progress_def threshold_fell_back_def)
  show ?thesis
    using ru RU_progress [of s E] start_matches(1) RU_iteration_matches [of s E 10]
    by blast
qed

text \<open>
  Claim C3. After a pass of the RU loop either the number of tie points strictly decreases
  or the threshold strictly increases: this fails. With four tie points of reconstruction
  uncertainty 10.5 the first pass selects all of them and widens the threshold to 11; the
  second pass selects none, removes nothing and resets the threshold to 10, so the number
  of tie points is unchanged and the threshold has decreased.
\<close>

theorem RU_iteration_stalls_counterexample:
  "widened_once =
     \<lparr>chunk = fresh_chunk 4,
      fltr = filter_init (uniform_engine (21 / 2)) ReconstructionUncertainty (fresh_chunk 4),
      threshold = 11\<rparr>
   \<and> max_value (fltr widened_once) > 10
   \<and> length (points (chunk (RU_iteration (uniform_engine (21 / 2)) 10 widened_once)))
       = length (points (chunk widened_once))
   \<and> threshold (RU_iteration (uniform_engine (21 / 2)) 10 widened_once) < threshold widened_once
   \<and> \<not> strict_progress widened_once (RU_iteration (uniform_engine (21 / 2)) 10 widened_once)"
  by code_simp

theorem RU_iteration_progress_witness:
  "filter_matches_chunk (RU_start (uniform_engine (21 / 2)) (fresh_chunk 4) 10)
   \<and> max_value (fltr (RU_start (uniform_engine (21 / 2)) (fresh_chunk 4) 10)) > 10
   \<and> strict_progress (RU_start (uniform_engine (21 / 2)) (fresh_chunk 4) 10)
        (RU_iteration (uniform_engine (21 / 2)) 10
           (RU_start (uniform_engine (21 / 2)) (fresh_chunk 4) 10))
   \<and> filter_matches_chunk widened_once
   \<and> max_value (fltr widened_once) > 10
   \<and> threshold_fell_back widened_once
        (RU_iteration (uniform_engine (21 / 2)) 10 widened_once)"
proof -
  have ru: "\<not> threshold_fell_back (RU_start (uniform_engine (21 / 2)) (fresh_chunk 4) 10)
        (RU_iteration (uniform_engine (21 / 2)) 10
           (RU_start (uniform_engine (21 / 2)) (fresh_chunk 4) 10))"
    by code_simp
  have g: "max_value (fltr (RU_start (uniform_engine (21 / 2)) (fresh_chunk 4) 10)) > 10"
      "max_value (fltr widened_once) > 10"
    by code_simp+
  have w: "\<not> strict_progress widened_once
        (RU_iteration (uniform_engine (21 / 2)) 10 widened_once)"
    by code_simp
  have m: "filter_matches_chunk widened_once"
    using RU_iteration_progress
      [of "uniform_engine (21 / 2)" "fresh_chunk 4"
          "RU_start (uniform_engine (21 / 2)) (fresh_chunk 4) 10"]
    by (simp add: widened_once_def)
  show ?thesis
    using ru g w m
      RU_iteration_progress
        [of "uniform_engine (21 / 2)" "fresh_chunk 4"
            "RU_start (uniform_engine (21 / 2)) (fresh_chunk 4) 10"]
      RU_iteration_progress
        [of "uniform_engine (21 / 2)" "fresh_chunk 4" widened_once]
    by blast
qed

text \<open>
  With a bundle adjustment that leaves the criterion values as they are, the loop never
  leaves these two states on this input, so ReduceError_RU does not return.
\<close>

lemma stalling_start: "stalling (RU_start (uniform_engine (21 / 2)) (fresh_chunk 4) 10)"
  by (simp add: stalling_def RU_start_def filter_init_def uniform_engine_def fresh_chunk_def
      upt_conv_Cons)

lemma stalling_guard: "stalling s \<Longrightarrow> max_value (fltr s) > 10"
  by (simp add: stalling_def max_value_def)

lemma stalling_step:
  assumes "stalling s"
  shows "stalling (RU_iteration (uniform_engine (21 / 2)) 10 s)"
proof -
  let ?E = "uniform_engine (21 / 2)"
  from assms have m: "filter_matches_chunk s"
    by (simp add: stalling_def filter_matches_chunk_def)
  from assms have vals: "crit_values (fltr s) = [21 / 2, 21 / 2, 21 / 2, 21 / 2]"
    and n: "length (points (chunk s)) = 4"
    and t: "threshold s = 10 \<or> threshold s = 11"
    by (simp_all add: stalling_def)
  from t show ?thesis
  proof
    assume t10: "threshold s = 10"
    have w: "real (length (filter (\<lambda>v. v > threshold s) (crit_values (fltr s))))
              \<ge> real (length (points (chunk s))) / 2 \<and> threshold s \<le> 50"
      by (simp add: vals n t10)
    note r = RU_iteration_widen [OF m w, of ?E 10]
    have "length (map track_id (points (chunk (RU_iteration ?E 10 s)))) = 4"
      using r(3) n by simp
    then have "length (points (chunk (RU_iteration ?E 10 s))) = 4" by simp
    with r(1,2) vals t10 show ?thesis by (simp add: stalling_def)
  next
    assume t11: "threshold s = 11"
    have w: "\<not> (real (length (filter (\<lambda>v. v > threshold s) (crit_values (fltr s))))
              \<ge> real (length (points (chunk s))) / 2 \<and> threshold s \<le> 50)"
      by (simp add: vals n t11)
    note r = RU_iteration_remove [OF m w, of ?E 10]
    have len: "length (points (chunk (RU_iteration ?E 10 s))) = 4"
      using r(2) n by (simp add: vals t11)
    have "crit_values (fltr (RU_iteration ?E 10 s)) =
            map (\<lambda>p. 21 / 2) (points (chunk (RU_iteration ?E 10 s)))"
      by (subst r(7)) (simp add: filter_init_def uniform_engine_def)
    then have "crit_values (fltr (RU_iteration ?E 10 s)) = replicate 4 (21 / 2)"
      using len by (simp add: map_replicate_const)
    then have "crit_values (fltr (RU_iteration ?E 10 s)) = [21 / 2, 21 / 2, 21 / 2, 21 / 2]"
      by (simp add: numeral_eq_Suc)
    with len r(1) show ?thesis by (simp add: stalling_def)
  qed
qed

lemma RU_loop_stalls:
  assumes "RU_loop E i s = Some s'"
  shows "\<not> (E = uniform_engine (21 / 2) \<and> i = 10 \<and> stalling s)"
  using assms
proof (induction rule: RU_loop.raw_induct [rotated 1, consumes 1])
  case (1 loop E i s s')
  show ?case
  proof
    assume a: "E = uniform_engine (21 / 2) \<and> i = 10 \<and> stalling s"
    then have "max_value (fltr s) > 10" by (simp add: stalling_guard)
    with 1(2) have run: "loop E i (RU_iteration E i s) = Some s'" by simp
    have "\<not> (E = uniform_engine (21 / 2) \<and> i = 10 \<and> stalling (RU_iteration E i s))"
      using run by (rule 1(1))
    with a stalling_step [of s] show False by simp
  qed
qed

lemma ReduceError_RU_does_not_return:
  "ReduceError_RU (uniform_engine (21 / 2)) (fresh_chunk 4) 10 = None"
proof (cases "RU_loop (uniform_engine (21 / 2)) 10
                (RU_start (uniform_engine (21 / 2)) (fresh_chunk 4) 10)")
  case None
  then show ?thesis by (simp add: ReduceError_RU_def)
next
  case (Some s')
  from RU_loop_stalls [OF Some] stalling_start show ?thesis by simp
qed

section \<open>The widening cap of the RU phase\<close>

lemma widening_state_step:
  "t \<le> 50 \<Longrightarrow> RU_iteration (uniform_engine 100) 10 (widening_state t) = widening_state (t + 1)"
  by (simp add: RU_iteration_def widening_state_def uniform_engine_def fresh_chunk_def
      filter_init_def selectPoints_def nselected_def resetSelection_def Let_def upt_conv_Cons)

lemma widening_state_steps:
  "t + real k \<le> 51 \<Longrightarrow>
   (RU_iteration (uniform_engine 100) 10 ^^ k) (widening_state t) = widening_state (t + real k)"
proof (induction k)
  case 0
  then show ?case by simp
next
  case (Suc k)
  then have "t + real k \<le> 50" by simp
  with Suc show ?case by (simp add: widening_state_step ac_simps)
qed

text \<open>
  On two tie points of reconstruction uncertainty 100 the RU loop reaches the threshold 50
  after 40 passes; with both tie points selected, the next pass widens the threshold to
  51 and removes nothing.
\<close>

theorem RU_widens_at_cap_counterexample:
  "(RU_iteration (uniform_engine 100) 10 ^^ 40) (RU_start (uniform_engine 100) (fresh_chunk 2) 10)
     = widening_state 50
   \<and> threshold (widening_state 50) = 50
   \<and> length (filter (\<lambda>v. v > 50) (crit_values (fltr (widening_state 50)))) = 2
   \<and> length (points (chunk (widening_state 50))) = 2
   \<and> RU_iteration (uniform_engine 100) 10 (widening_state 50) = widening_state 51
   \<and> threshold (widening_state 51) = 51
   \<and> length (points (chunk (widening_state 51))) = 2"
proof -
  have start: "RU_start (uniform_engine 100) (fresh_chunk 2) 10 = widening_state 10"
    by (simp add: RU_start_def widening_state_def)
  have "(RU_iteration (uniform_engine 100) 10 ^^ 40) (widening_state 10) = widening_state (10 + real 40)"
    by (rule widening_state_steps) simp
  then have reach: "(RU_iteration (uniform_engine 100) 10 ^^ 40) (widening_state 10) = widening_state 50"
    by simp
  have step: "RU_iteration (uniform_engine 100) 10 (widening_state 50) = widening_state (50 + 1)"
    by (rule widening_state_step) simp
  have vals: "length (filter (\<lambda>v. v > 50) (crit_values (fltr (widening_state 50)))) = 2"
    by (simp add: widening_state_def filter_init_def uniform_engine_def fresh_chunk_def upt_conv_Cons)
  have pts: "length (points (chunk (widening_state t))) = 2" for t
    by (simp add: widening_state_def fresh_chunk_def)
  show ?thesis
    using reach step vals pts by (simp add: start) (simp add: widening_state_def)
qed

text \<open>
  Claim C4 (amended). In a pass of the RU loop, when the selected tie points number at
  least half of all tie points and the threshold is at most 50, nothing is removed and the
  threshold is widened by 1, so that the threshold can reach 51. When the threshold
  exceeds 50 (or fewer than half of the tie points are selected), the selected tie points
  are removed, whatever their fraction, the cameras are re-optimized and the threshold is
  reset.
\<close>

theorem RU_widening_cap:
  assumes "filter_matches_chunk s"
  shows "(real (length (filter (\<lambda>v. v > threshold s) (crit_values (fltr s))))
            \<ge> real (length (points (chunk s))) / 2 \<and> threshold s \<le> 50 \<longrightarrow>
          threshold (RU_iteration E i s) = threshold s + 1
          \<and> fltr (RU_iteration E i s) = fltr s
          \<and> map track_id (points (chunk (RU_iteration E i s))) = map track_id (points (chunk s))
          \<and> optimize_calls (chunk (RU_iteration E i s)) = optimize_calls (chunk s))
       \<and> (threshold s > 50
          \<or> real (length (filter (\<lambda>v. v > threshold s) (crit_values (fltr s))))
              < real (length (points (chunk s))) / 2 \<longrightarrow>
          threshold (RU_iteration E i s) = i
          \<and> map track_id (points (chunk (RU_iteration E i s))) =
              map (track_id \<circ> fst)
                (filter (\<lambda>(p, v). \<not> v > threshold s)
                   (zip (points (chunk s)) (crit_values (fltr s))))
          \<and> length (points (chunk (RU_iteration E i s)))
              + length (filter (\<lambda>v. v > threshold s) (crit_values (fltr s)))
             = length (points (chunk s))
          \<and> optimize_calls (chunk (RU_iteration E i s)) = optimize_calls (chunk s) @ [basic_fit])"
proof (intro conjI impI)
  assume w: "real (length (filter (\<lambda>v. v > threshold s) (crit_values (fltr s))))
            \<ge> real (length (points (chunk s))) / 2 \<and> threshold s \<le> 50"
  note r = RU_iteration_widen [OF assms w, of E i]
  show "threshold (RU_iteration E i s) = threshold s + 1" by (rule r(1))
  show "fltr (RU_iteration E i s) = fltr s" by (rule r(2))
  show "map track_id (points (chunk (RU_iteration E i s))) = map track_id (points (chunk s))"
    by (rule r(3))
  show "optimize_calls (chunk (RU_iteration E i s)) = optimize_calls (chunk s)" by (rule r(4))
next
  assume "threshold s > 50
          \<or> real (length (filter (\<lambda>v. v > threshold s) (crit_values (fltr s))))
              < real (length (points (chunk s))) / 2"
  then have w: "\<not> (real (length (filter (\<lambda>v. v > threshold s) (crit_values (fltr s))))
            \<ge> real (length (points (chunk s))) / 2 \<and> threshold s \<le> 50)"
    by auto
  note r = RU_iteration_remove [OF assms w, of E i]
  show "threshold (RU_iteration E i s) = i" by (rule r(1))
  show "map track_id (points (chunk (RU_iteration E i s))) =
              map (track_id \<circ> fst)
                (filter (\<lambda>(p, v). \<not> v > threshold s)
                   (zip (points (chunk s)) (crit_values (fltr s))))"
    by (rule r(3))
  show "length (points (chunk (RU_iteration E i s)))
              + length (filter (\<lambda>v. v > threshold s) (crit_values (fltr s)))
             = length (points (chunk s))"
    by (rule r(2))
  show "optimize_calls (chunk (RU_iteration E i s)) = optimize_calls (chunk s) @ [basic_fit]"
    by (rule r(4))
qed

theorem RU_widening_cap_witness:
  "filter_matches_chunk (widening_state 50)
   \<and> threshold (RU_iteration (uniform_engine 100) 10 (widening_state 50)) = 51
   \<and> filter_matches_chunk (widening_state 51)
   \<and> threshold (RU_iteration (uniform_engine 100) 10 (widening_state 51)) = 10
   \<and> points (chunk (RU_iteration (uniform_engine 100) 10 (widening_state 51))) = []"
proof -
  have m: "filter_matches_chunk (widening_state t)" for t
    by (simp add: filter_matches_chunk_def widening_state_def)
  have vals: "length (filter (\<lambda>v. v > t) (crit_values (fltr (widening_state t)))) = 2"
    if "t < 100" for t
    using that
    by (simp add: widening_state_def filter_init_def uniform_engine_def fresh_chunk_def upt_conv_Cons)
  have pts: "length (points (chunk (widening_state t))) = 2" for t
    by (simp add: widening_state_def fresh_chunk_def)
  have t: "threshold (widening_state t) = t" for t
    by (simp add: widening_state_def)
  from RU_widening_cap [OF m [of 50], of "uniform_engine 100" 10] vals [of 50] pts [of 50]
  have a: "threshold (RU_iteration (uniform_engine 100) 10 (widening_state 50)) = 51"
    by (simp add: t)
  from RU_widening_cap [OF m [of 51], of "uniform_engine 100" 10] vals [of 51] pts [of 51]
  have b: "threshold (RU_iteration (uniform_engine 100) 10 (widening_state 51)) = 10
     \<and> length (points (chunk (RU_iteration (uniform_engine 100) 10 (widening_state 51)))) = 0"
    by (simp add: t)
  show ?thesis using a b m by simp
qed

section \<open>Converged inputs and the closing statements of the PA phase\<close>

lemma RU_loop_converged:
  "max_value (fltr s) \<le> 10 \<Longrightarrow> RU_loop E i s = Some s"
  by (subst RU_loop.simps) simp

lemma PA_loop_converged:
  "max_value (fltr s) \<le> 2 \<Longrightarrow> PA_loop E i s = Some s"
  by (subst PA_loop.simps) simp

lemma RE_loop_converged:
  "max_value (fltr s) \<le> 3 / 10 \<Longrightarrow> RE_loop E i s = Some s"
  by (subst RE_loop.simps) simp

lemma points_PA_finish: "points (PA_finish E c) = points c"
  by (simp add: PA_finish_def)

lemma tiepoint_accuracy_PA_finish: "tiepoint_accuracy (PA_finish E c) = py_float (1 / 10)"
  by (simp add: PA_finish_def)

lemma optimize_calls_PA_finish:
  "optimize_calls (PA_finish E c) = optimize_calls c @ [full_fit]"
  by (simp add: PA_finish_def)

text \<open>
  Claim C5. When the largest criterion value of the chunk is at most the stop value of a
  phase (10 for RU, 2.0 for PA, 0.3 for RE), the guard of the phase's loop is false in its
  initial state: the loop returns that state after zero passes and no tie point is
  removed. RU and RE return the chunk as it was; PA returns it after its closing
  statements, with the same tie points.
\<close>

theorem converged_phase_removes_nothing:
  "(max_value (filter_init E ReconstructionUncertainty c) \<le> 10 \<longrightarrow>
      RU_loop E i (RU_start E c i) = Some (RU_start E c i)
      \<and> ReduceError_RU E c i = Some c)
   \<and> (max_value (filter_init E ProjectionAccuracy c) \<le> 2 \<longrightarrow>
      PA_loop E i (PA_start E c i) = Some (PA_start E c i)
      \<and> ReduceError_PA E c i = Some (PA_finish E c)
      \<and> points (PA_finish E c) = points c)
   \<and> (max_value (filter_init E ReprojectionError c) \<le> 3 / 10 \<longrightarrow>
      RE_loop E i (RE_start E c i) = Some (RE_start E c i)
      \<and> ReduceError_RE E c i = Some c)"
proof -
  have ru: "RU_loop E i (RU_start E c i) = Some (RU_start E c i)"
    if "max_value (filter_init E ReconstructionUncertainty c) \<le> 10"
    using that by (intro RU_loop_converged) (simp add: RU_start_def)
  have pa: "PA_loop E i (PA_start E c i) = Some (PA_start E c i)"
    if "max_value (filter_init E ProjectionAccuracy c) \<le> 2"
    using that by (intro PA_loop_converged) (simp add: PA_start_def)
  have re: "RE_loop E i (RE_start E c i) = Some (RE_start E c i)"
    if "max_value (filter_init E ReprojectionError c) \<le> 3 / 10"
    using that by (intro RE_loop_converged) (simp add: RE_start_def)
  have "ReduceError_RU E c i = Some c"
    if "max_value (filter_init E ReconstructionUncertainty c) \<le> 10"
    using ru [OF that] by (simp add: ReduceError_RU_def RU_start_def)
  moreover have "ReduceError_PA E c i = Some (PA_finish E c)"
    if "max_value (filter_init E ProjectionAccuracy c) \<le> 2"
    using pa [OF that] by (simp add: ReduceError_PA_def PA_start_def)
  moreover have "ReduceError_RE E c i = Some c"
    if "max_value (filter_init E ReprojectionError c) \<le> 3 / 10"
    using re [OF that] by (simp add: ReduceError_RE_def RE_start_def)
  ultimately show ?thesis
    using ru pa re points_PA_finish [of E c] by blast
qed

theorem converged_phase_removes_nothing_witness:
  "max_value (filter_init (uniform_engine 9) ReconstructionUncertainty (fresh_chunk 3)) \<le> 10
   \<and> ReduceError_RU (uniform_engine 9) (fresh_chunk 3) 10 = Some (fresh_chunk 3)
   \<and> max_value (filter_init (uniform_engine (3 / 2)) ProjectionAccuracy (fresh_chunk 3)) \<le> 2
   \<and> ReduceError_PA (uniform_engine (3 / 2)) (fresh_chunk 3) 2 =
       Some (PA_finish (uniform_engine (3 / 2)) (fresh_chunk 3))
   \<and> points (PA_finish (uniform_engine (3 / 2)) (fresh_chunk 3)) = points (fresh_chunk 3)
   \<and> max_value (filter_init (uniform_engine (1 / 5)) ReprojectionError (fresh_chunk 3)) \<le> 3 / 10
   \<and> ReduceError_RE (uniform_engine (1 / 5)) (fresh_chunk 3) (3 / 10) = Some (fresh_chunk 3)"
proof -
  have h: "max_value (filter_init (uniform_engine 9) ReconstructionUncertainty (fresh_chunk 3)) \<le> 10"
    "max_value (filter_init (uniform_engine (3 / 2)) ProjectionAccuracy (fresh_chunk 3)) \<le> 2"
    "max_value (filter_init (uniform_engine (1 / 5)) ReprojectionError (fresh_chunk 3)) \<le> 3 / 10"
    by code_simp+
  show ?thesis
    using h converged_phase_removes_nothing [of "uniform_engine 9" "fresh_chunk 3" 10]
      converged_phase_removes_nothing [of "uniform_engine (3 / 2)" "fresh_chunk 3" 2]
      converged_phase_removes_nothing [of "uniform_engine (1 / 5)" "fresh_chunk 3" "3 / 10"]
    by blast
qed

lemma PA_iteration_calls:
  "length (optimize_calls (chunk s)) \<le> length (optimize_calls (chunk (PA_iteration E i s)))"
  by (simp add: PA_iteration_def Let_def selectPoints_def resetSelection_def
      removeSelectedPoints_def optimizeCameras_def)

lemma PA_loop_calls:
  "PA_loop E i s = Some s' \<Longrightarrow>
   length (optimize_calls (chunk s)) \<le> length (optimize_calls (chunk s'))"
proof (induction rule: PA_loop.raw_induct [rotated 1, consumes 1])
  case (1 loop E i s s')
  show ?case
  proof (cases "2 < max_value (fltr s)")
    case True
    with 1(2) have run: "loop E i (PA_iteration E i s) = Some s'" by simp
    have "length (optimize_calls (chunk (PA_iteration E i s)))
            \<le> length (optimize_calls (chunk s'))"
      using run by (rule 1(1))
    with PA_iteration_calls [of s E i] show ?thesis by (rule order_trans)
  next
    case False
    with 1(2) show ?thesis by simp
  qed
qed

lemma ReduceError_PA_result:
  assumes "ReduceError_PA E c i = Some c'"
  shows "tiepoint_accuracy c' = py_float (1 / 10)"
    and "optimize_calls c' \<noteq> []"
    and "last (optimize_calls c') = full_fit"
    and "length (optimize_calls c) < length (optimize_calls c')"
proof -
  from assms obtain s where s: "PA_loop E i (PA_start E c i) = Some s"
    and c': "c' = PA_finish E (chunk s)"
    by (auto simp: ReduceError_PA_def split: option.splits)
  show "tiepoint_accuracy c' = py_float (1 / 10)" by (simp add: c' tiepoint_accuracy_PA_finish)
  show "optimize_calls c' \<noteq> []" by (simp add: c' optimize_calls_PA_finish)
  show "last (optimize_calls c') = full_fit" by (simp add: c' optimize_calls_PA_finish)
  from PA_loop_calls [OF s]
  show "length (optimize_calls c) < length (optimize_calls c')"
    by (simp add: c' optimize_calls_PA_finish PA_start_def)
qed

text \<open>
  What ReduceError_PA does when it returns: the chunk it returns has \<open>tiepoint_accuracy\<close>
  0.1 and has received one more \<open>optimizeCameras\<close> call than before, the last one with
  every intrinsic parameter enabled, so it differs from the chunk passed in. On a converged
  input ReduceError_PA returns, having executed exactly these two statements, whereas
  ReduceError_RU and ReduceError_RE return the chunk unchanged.
\<close>

theorem ReduceError_PA_tightens_when_it_returns:
  "(\<forall>c'. ReduceError_PA E c i = Some c' \<longrightarrow>
       tiepoint_accuracy c' = py_float (1 / 10)
       \<and> optimize_calls c' \<noteq> [] \<and> last (optimize_calls c') = full_fit
       \<and> length (optimize_calls c) < length (optimize_calls c')
       \<and> c' \<noteq> c)
   \<and> (fit_f full_fit \<and> fit_cx full_fit \<and> fit_cy full_fit \<and> fit_b1 full_fit \<and> fit_b2 full_fit
      \<and> fit_k1 full_fit \<and> fit_k2 full_fit \<and> fit_k3 full_fit \<and> fit_k4 full_fit
      \<and> fit_p1 full_fit \<and> fit_p2 full_fit \<and> fit_p3 full_fit \<and> fit_p4 full_fit)
   \<and> (max_value (filter_init E ProjectionAccuracy c) \<le> 2 \<longrightarrow>
        ReduceError_PA E c i = Some (optimizeCameras E full_fit (c\<lparr>tiepoint_accuracy := py_float (1 / 10)\<rparr>)))
   \<and> (max_value (filter_init E ReconstructionUncertainty c) \<le> 10 \<longrightarrow>
        ReduceError_RU E c i = Some c)
   \<and> (max_value (filter_init E ReprojectionError c) \<le> 3 / 10 \<longrightarrow>
        ReduceError_RE E c i = Some c)"
proof -
  have mutated: "c' \<noteq> c" if "ReduceError_PA E c i = Some c'" for c'
    using ReduceError_PA_result(4) [OF that] by auto
  have flags: "fit_f full_fit \<and> fit_cx full_fit \<and> fit_cy full_fit \<and> fit_b1 full_fit
      \<and> fit_b2 full_fit \<and> fit_k1 full_fit \<and> fit_k2 full_fit \<and> fit_k3 full_fit
      \<and> fit_k4 full_fit \<and> fit_p1 full_fit \<and> fit_p2 full_fit \<and> fit_p3 full_fit
      \<and> fit_p4 full_fit"
    by (simp add: full_fit_def)
  have pa: "ReduceError_PA E c i = Some (optimizeCameras E full_fit (c\<lparr>tiepoint_accuracy := py_float (1 / 10)\<rparr>))"
    if "max_value (filter_init E ProjectionAccuracy c) \<le> 2"
  proof -
    have "PA_loop E i (PA_start E c i) = Some (PA_start E c i)"
      using that by (intro PA_loop_converged) (simp add: PA_start_def)
    then show ?thesis by (simp add: ReduceError_PA_def PA_start_def PA_finish_def)
  qed
  have ru: "ReduceError_RU E c i = Some c"
    if "max_value (filter_init E ReconstructionUncertainty c) \<le> 10"
  proof -
    have "RU_loop E i (RU_start E c i) = Some (RU_start E c i)"
      using that by (intro RU_loop_converged) (simp add: RU_start_def)
    then show ?thesis by (simp add: ReduceError_RU_def RU_start_def)
  qed
  have re: "ReduceError_RE E c i = Some c"
    if "max_value (filter_init E ReprojectionError c) \<le> 3 / 10"
  proof -
    have "RE_loop E i (RE_start E c i) = Some (RE_start E c i)"
      using that by (intro RE_loop_converged) (simp add: RE_start_def)
    then show ?thesis by (simp add: ReduceError_RE_def RE_start_def)
  qed
  show ?thesis
    using ReduceError_PA_result [of E c i] mutated flags pa ru re by blast
qed

theorem ReduceError_PA_tightens_when_it_returns_witness:
  "ReduceError_PA (outlier_engine 5 1) (fresh_chunk 3) 2 =
       Some \<lparr>points = [\<lparr>track_id = 1, selected = False\<rparr>, \<lparr>track_id = 2, selected = False\<rparr>],
             calibration = (), tiepoint_accuracy = py_float (1 / 10),
             optimize_calls = [basic_fit, full_fit]\<rparr>
   \<and> max_value (filter_init (uniform_engine (3 / 2)) ProjectionAccuracy (fresh_chunk 3)) \<le> 2
   \<and> ReduceError_PA (uniform_engine (3 / 2)) (fresh_chunk 3) 2 =
       Some (optimizeCameras (uniform_engine (3 / 2)) full_fit
               ((fresh_chunk 3)\<lparr>tiepoint_accuracy := py_float (1 / 10)\<rparr>))
   \<and> optimizeCameras (uniform_engine (3 / 2)) full_fit
               ((fresh_chunk 3)\<lparr>tiepoint_accuracy := py_float (1 / 10)\<rparr>) \<noteq> fresh_chunk 3
   \<and> max_value (filter_init (uniform_engine 9) ReconstructionUncertainty (fresh_chunk 3)) \<le> 10
   \<and> ReduceError_RU (uniform_engine 9) (fresh_chunk 3) 10 = Some (fresh_chunk 3)
   \<and> max_value (filter_init (uniform_engine (1 / 5)) ReprojectionError (fresh_chunk 3)) \<le> 3 / 10
   \<and> ReduceError_RE (uniform_engine (1 / 5)) (fresh_chunk 3) (3 / 10) = Some (fresh_chunk 3)"
proof -
  have run: "ReduceError_PA (outlier_engine 5 1) (fresh_chunk 3) 2 =
       Some \<lparr>points = [\<lparr>track_id = 1, selected = False\<rparr>, \<lparr>track_id = 2, selected = False\<rparr>],
             calibration = (), tiepoint_accuracy = py_float (1 / 10),
             optimize_calls = [basic_fit, full_fit]\<rparr>"
    by (simp add: ReduceError_PA_def PA_loop.simps PA_start_def PA_iteration_def PA_finish_def
      outlier_engine_def fresh_chunk_def filter_init_def max_value_def selectPoints_def
      nselected_def removeSelectedPoints_def resetSelection_def optimizeCameras_def Let_def
      upt_conv_Cons)
  have h: "max_value (filter_init (uniform_engine (3 / 2)) ProjectionAccuracy (fresh_chunk 3)) \<le> 2"
    "max_value (filter_init (uniform_engine 9) ReconstructionUncertainty (fresh_chunk 3)) \<le> 10"
    "max_value (filter_init (uniform_engine (1 / 5)) ReprojectionError (fresh_chunk 3)) \<le> 3 / 10"
    by code_simp+
  show ?thesis
    using run h
      ReduceError_PA_tightens_when_it_returns [of "uniform_engine (3 / 2)" "fresh_chunk 3" 2]
      ReduceError_PA_tightens_when_it_returns [of "uniform_engine 9" "fresh_chunk 3" 10]
      ReduceError_PA_tightens_when_it_returns [of "uniform_engine (1 / 5)" "fresh_chunk 3" "3 / 10"]
    by blast
qed

text \<open>
  The states of the PA loop on four tie points of projection accuracy 2.05: the first pass
  selects all of them and widens the threshold from 2.0 to the float 2.1, the second pass
  selects none, removes nothing and resets the threshold to 2.0.
\<close>

lemma widened_PA_threshold: "41 / 20 \<le> float_add 2 (py_float (1 / 10))"
  by code_simp

lemma stalling_PA_start: "stalling_PA (PA_start (uniform_engine (41 / 20)) (fresh_chunk 4) 2)"
  by (simp add: stalling_PA_def PA_start_def filter_init_def uniform_engine_def fresh_chunk_def
      upt_conv_Cons)

lemma stalling_PA_guard: "stalling_PA s \<Longrightarrow> max_value (fltr s) > 2"
  by (simp add: stalling_PA_def max_value_def)

lemma stalling_PA_step:
  assumes "stalling_PA s"
  shows "stalling_PA (PA_iteration (uniform_engine (41 / 20)) 2 s)"
proof -
  let ?E = "uniform_engine (41 / 20)"
  from assms have m: "filter_matches_chunk s"
    by (simp add: stalling_PA_def filter_matches_chunk_def)
  from assms have vals: "crit_values (fltr s) = [41 / 20, 41 / 20, 41 / 20, 41 / 20]"
    and n: "length (points (chunk s)) = 4"
    and t: "threshold s = 2 \<or> threshold s = float_add 2 (py_float (1 / 10))"
    by (simp_all add: stalling_PA_def)
  from t show ?thesis
  proof
    assume t2: "threshold s = 2"
    have w: "real (length (filter (\<lambda>v. v > threshold s) (crit_values (fltr s))))
              \<ge> real (length (points (chunk s))) / 2 \<and> threshold s \<le> 3"
      by (simp add: vals n t2)
    note r = PA_iteration_widen [OF m w, of ?E 2]
    have "length (map track_id (points (chunk (PA_iteration ?E 2 s)))) = 4"
      using r(3) n by simp
    then have "length (points (chunk (PA_iteration ?E 2 s))) = 4" by simp
    with r(1,2) vals t2 show ?thesis by (simp add: stalling_PA_def)
  next
    assume tw: "threshold s = float_add 2 (py_float (1 / 10))"
    have none: "length (filter (\<lambda>v. v > threshold s) (crit_values (fltr s))) = 0"
      using widened_PA_threshold by (simp add: vals tw)
    have w: "\<not> (real (length (filter (\<lambda>v. v > threshold s) (crit_values (fltr s))))
              \<ge> real (length (points (chunk s))) / 2 \<and> threshold s \<le> 3)"
      by (simp add: none n)
    note r = PA_iteration_remove [OF m w, of ?E 2]
    have len: "length (points (chunk (PA_iteration ?E 2 s))) = 4"
      using r(2) n none by simp
    have "crit_values (fltr (PA_iteration ?E 2 s)) =
            map (\<lambda>p. 41 / 20) (points (chunk (PA_iteration ?E 2 s)))"
      by (subst r(7)) (simp add: filter_init_def uniform_engine_def)
    then have "crit_values (fltr (PA_iteration ?E 2 s)) = replicate 4 (41 / 20)"
      using len by (simp add: map_replicate_const)
    then have "crit_values (fltr (PA_iteration ?E 2 s)) = [41 / 20, 41 / 20, 41 / 20, 41 / 20]"
      by (simp add: numeral_eq_Suc)
    with len r(1) show ?thesis by (simp add: stalling_PA_def)
  qed
qed

lemma PA_loop_stalls:
  assumes "PA_loop E i s = Some s'"
  shows "\<not> (E = uniform_engine (41 / 20) \<and> i = 2 \<and> stalling_PA s)"
  using assms
proof (induction rule: PA_loop.raw_induct [rotated 1, consumes 1])
  case (1 loop E i s s')
  show ?case
  proof
    assume a: "E = uniform_engine (41 / 20) \<and> i = 2 \<and> stalling_PA s"
    then have "max_value (fltr s) > 2" by (simp add: stalling_PA_guard)
    with 1(2) have run: "loop E i (PA_iteration E i s) = Some s'" by simp
    have "\<not> (E = uniform_engine (41 / 20) \<and> i = 2 \<and> stalling_PA (PA_iteration E i s))"
      using run by (rule 1(1))
    with a stalling_PA_step [of s] show False by simp
  qed
qed

text \<open>
  Claim C10. ReduceError_PA always sets \<open>tiepoint_accuracy\<close> to 0.1 and re-optimizes
  once more with every intrinsic parameter enabled: this fails when its loop does not
  end. On four tie points of projection accuracy 2.05, with a bundle adjustment that
  leaves the criterion values as they are, the loop alternates between the thresholds 2.0
  and 2.1 for ever; ReduceError_PA does not return and the two closing statements are
  never reached.
\<close>

theorem ReduceError_PA_does_not_return:
  "ReduceError_PA (uniform_engine (41 / 20)) (fresh_chunk 4) 2 = None"
proof (cases "PA_loop (uniform_engine (41 / 20)) 2
                (PA_start (uniform_engine (41 / 20)) (fresh_chunk 4) 2)")
  case None
  then show ?thesis by (simp add: ReduceError_PA_def)
next
  case (Some s')
  from PA_loop_stalls [OF Some] stalling_PA_start show ?thesis by simp
qed

section \<open>Properties of GetSunAngle\<close>

text \<open>
  The single subtraction of 360 brings the azimuth into the open interval (-360, 360)
  exactly when the south-referenced azimuth lies strictly between -540 and 540.
\<close>

lemma GetSunAngle_azimuth_range:
  "(- 360 < snd (GetSunAngle L LonLat time) \<and> snd (GetSunAngle L LonLat time) < 360)
     \<longleftrightarrow> (- 540 < get_azimuth L (lat LonLat) (lon LonLat) time
          \<and> get_azimuth L (lat LonLat) (lon LonLat) time < 540)"
  by (auto simp: GetSunAngle_def Let_def abs_if split: if_splits)

text \<open>
  Claim C6. GetSunAngle returns the zenith 90 minus the solar altitude, and the azimuth
  180 minus the south-referenced azimuth, with 360 subtracted once when the magnitude of
  that value reaches or exceeds 360, so that the returned azimuth lies in the open
  interval (-360, 360). The solar library reports azimuths of a magnitude below 360
  degrees; the theorem asks only for a magnitude below 540.
\<close>

theorem GetSunAngle_zenith_azimuth:
  assumes "\<bar>get_azimuth L (lat LonLat) (lon LonLat) time\<bar> < 540"
  shows "fst (GetSunAngle L LonLat time) = 90 - get_altitude L (lat LonLat) (lon LonLat) time
       \<and> snd (GetSunAngle L LonLat time) =
           (if \<bar>180 - get_azimuth L (lat LonLat) (lon LonLat) time\<bar> \<ge> 360
            then 180 - get_azimuth L (lat LonLat) (lon LonLat) time - 360
            else 180 - get_azimuth L (lat LonLat) (lon LonLat) time)
       \<and> - 360 < snd (GetSunAngle L LonLat time)
       \<and> snd (GetSunAngle L LonLat time) < 360"
proof -
  have "fst (GetSunAngle L LonLat time) = 90 - get_altitude L (lat LonLat) (lon LonLat) time"
    by (simp add: GetSunAngle_def Let_def)
  moreover have "snd (GetSunAngle L LonLat time) =
           (if \<bar>180 - get_azimuth L (lat LonLat) (lon LonLat) time\<bar> \<ge> 360
            then 180 - get_azimuth L (lat LonLat) (lon LonLat) time - 360
            else 180 - get_azimuth L (lat LonLat) (lon LonLat) time)"
    by (simp add: GetSunAngle_def Let_def)
  moreover from assms
  have "- 540 < get_azimuth L (lat LonLat) (lon LonLat) time
        \<and> get_azimuth L (lat LonLat) (lon LonLat) time < 540"
    by (simp add: abs_less_iff)
  then have "- 360 < snd (GetSunAngle L LonLat time) \<and> snd (GetSunAngle L LonLat time) < 360"
    by (simp only: GetSunAngle_azimuth_range)
  ultimately show ?thesis by simp
qed

text \<open>
  A south-referenced azimuth of -200 degrees becomes 380 and is wrapped to 20; one of 190
  degrees becomes -10 and is left as it is.
\<close>

theorem GetSunAngle_zenith_azimuth_witness:
  "\<bar>- 200 :: real\<bar> < 540
   \<and> GetSunAngle (constant_sun 30 (- 200)) origin () = (60, 20)
   \<and> \<bar>190 :: real\<bar> < 540
   \<and> GetSunAngle (constant_sun 90 190) origin () = (0, - 10)"
proof -
  have h: "\<bar>get_azimuth (constant_sun 30 (- 200)) (lat origin) (lon origin) ()\<bar> < 540"
    "\<bar>get_azimuth (constant_sun 90 190) (lat origin) (lon origin) ()\<bar> < 540"
    by (simp_all add: constant_sun_def)
  show ?thesis
    using GetSunAngle_zenith_azimuth [OF h(1)] GetSunAngle_zenith_azimuth [OF h(2)]
    by (simp add: constant_sun_def prod_eq_iff)
qed

section \<open>Properties of CreateSunViewGeometryArrays\<close>

lemma geometry_pixel_fixed:
  "pixel_sun_zenith (geometry_pixel L False camera uv g) = pixel_sun_zenith g"
  "pixel_sun_azimuth (geometry_pixel L False camera uv g) = pixel_sun_azimuth g"
  by (simp_all add: geometry_pixel_def Let_def split: prod.splits)

lemma geometry_pixel_sun:
  "sun_zenith_array (geometry_pixel L False camera (u0, v0) g) v u =
     (if v = v0 \<and> u = u0 then pixel_sun_zenith g else sun_zenith_array g v u)"
  "sun_azimuth_array (geometry_pixel L False camera (u0, v0) g) v u =
     (if v = v0 \<and> u = u0 then pixel_sun_azimuth g else sun_azimuth_array g v u)"
  by (simp_all add: geometry_pixel_def Let_def array_set_def split: prod.splits)

lemma fold_geometry_pixel_fixed:
  "pixel_sun_zenith (fold (geometry_pixel L False camera) uvs g) = pixel_sun_zenith g
   \<and> pixel_sun_azimuth (fold (geometry_pixel L False camera) uvs g) = pixel_sun_azimuth g"
  by (induction uvs arbitrary: g) (simp_all add: geometry_pixel_fixed)

lemma fold_geometry_pixel_sun:
  "sun_zenith_array (fold (geometry_pixel L False camera) uvs g) v u =
     (if (u, v) \<in> set uvs then pixel_sun_zenith g else sun_zenith_array g v u)
   \<and> sun_azimuth_array (fold (geometry_pixel L False camera) uvs g) v u =
     (if (u, v) \<in> set uvs then pixel_sun_azimuth g else sun_azimuth_array g v u)"
proof (induction uvs arbitrary: g)
  case Nil
  then show ?case by simp
next
  case (Cons uv uvs)
  obtain u0 v0 where uv: "uv = (u0, v0)" by (cases uv)
  show ?case
    using Cons [of "geometry_pixel L False camera (u0, v0) g"]
    by (auto simp: uv geometry_pixel_fixed geometry_pixel_sun)
qed

text \<open>
  Without the Pixelwise option every pixel of the two sun angle arrays holds the pair that
  GetSunAngle returns for the location of the pixel \<open>(width/2 + cx, width/2 + cy)\<close>.
\<close>

lemma sun_arrays_without_pixelwise:
  assumes "u < sensor_width camera" and "v < sensor_height camera"
  shows "fst (CreateSunViewGeometryArrays L False camera) v u =
           fst (GetSunAngle L
                  (GetPixelLocation camera
                     (real (sensor_width camera) / 2 + calibration_cx camera)
                     (real (sensor_width camera) / 2 + calibration_cy camera))
                  (date_time camera))"
    and "fst (snd (CreateSunViewGeometryArrays L False camera)) v u =
           snd (GetSunAngle L
                  (GetPixelLocation camera
                     (real (sensor_width camera) / 2 + calibration_cx camera)
                     (real (sensor_width camera) / 2 + calibration_cy camera))
                  (date_time camera))"
  using assms fold_geometry_pixel_sun [of L camera
      "List.product [0..<sensor_width camera] [0..<sensor_height camera]" _ v u]
  by (simp_all add: CreateSunViewGeometryArrays_def Let_def split: prod.splits)

text \<open>
  Claim C8. One pair of sun angles is written into every pixel, but it is computed at the
  pixel \<open>(width/2 + cx, width/2 + cy)\<close>, which is the camera centre
  \<open>(width/2 + cx, height/2 + cy)\<close> only for a square sensor. For the camera of width 2
  and height 4 the centre is the pixel (1, 2), where the sun zenith is 88; every pixel
  of the array holds 89, the sun zenith at the pixel (1, 1).
\<close>

theorem sun_angle_not_taken_at_camera_centre:
  "camera_centre portrait_camera = (1, 2)
   \<and> fst (GetSunAngle latitude_sun (GetPixelLocation portrait_camera 1 2) ()) = 88
   \<and> map (\<lambda>(u, v). fst (CreateSunViewGeometryArrays latitude_sun False portrait_camera) v u)
        (List.product [0..<2] [0..<4])
      = [89, 89, 89, 89, 89, 89, 89, 89]
   \<and> fst (GetSunAngle latitude_sun (GetPixelLocation portrait_camera 1 1) ()) = 89"
proof -
  have px: "fst (CreateSunViewGeometryArrays latitude_sun False portrait_camera) v u = 89"
    if "u < 2" "v < 4" for u v
    using that sun_arrays_without_pixelwise(1) [of u portrait_camera v latitude_sun]
    by (simp add: portrait_camera_def latitude_sun_def GetSunAngle_def Let_def)
  have "List.product [0..<2] [0..<4] =
          [(0, 0), (0, 1), (0, 2), (0, 3), (1, 0), (1, 1), (1, 2), (1, 3 :: nat)] "
    by (simp add: upt_conv_Cons)
  then show ?thesis
    by (simp add: px camera_centre_def)
       (simp add: portrait_camera_def latitude_sun_def GetSunAngle_def Let_def)
qed

section \<open>Properties of the per-band loop of BRDFCorrection\<close>

lemma example_new_path:
  "new_path example_paths ''/proj/p.c.BRDF_corrected'' (example_band g) =
     ''/proj/p.c.BRDF_corrected/IMG_1.tif''"
  by (simp add: new_path_def example_paths_def example_band_def split_last_def)

lemma example_new_filename_formatted:
  "new_filename_formatted example_paths ''/proj/p.c.BRDF_corrected'' (example_band g) =
     ''/proj/p.c.BRDF_corrected/IMG_1.tif/IMG_1.tif''"
  by (simp add: new_filename_formatted_def example_new_path)
     (simp add: example_paths_def example_band_def split_last_def)

lemma example_filename_formatted:
  "filename_formatted example_paths (example_band g) = ''/data/IMG_1.tif''"
  by (simp add: filename_formatted_def example_paths_def example_band_def)

text \<open>
  Two bands that meet none of the three conditions (neither is in the calibration group,
  the photo of neither lies at the destination \<open>new_path\<close>, no file exists there) and for
  which no corrected image is written: a band without a camera group for which
  \<open>BRDFImage\<close> raises \<open>ValueError\<close> is disabled, and a band of the camera group
  ``Flight 1'' leaves the \<^verbatim>\<open>try\<close> statement without an exception, so that the handler
  holding the correction never runs.
\<close>

theorem correct_band_counterexample:
  "group (example_band None) \<noteq> Some ''Calibration images''
   \<and> filename_formatted example_paths (example_band None)
       \<noteq> abspath example_paths
            (new_path example_paths ''/proj/p.c.BRDF_corrected'' (example_band None))
   \<and> filename_formatted example_paths (example_band None)
       \<noteq> new_filename_formatted example_paths ''/proj/p.c.BRDF_corrected'' (example_band None)
   \<and> new_path example_paths ''/proj/p.c.BRDF_corrected'' (example_band None)
       \<notin> dom (Map.empty :: nat file_system)
   \<and> correct_band example_paths (\<lambda>b. Inl ValueError) ''/proj/p.c.BRDF_corrected''
        (Map.empty :: nat file_system, example_band None)
       = Inr (Map.empty, (example_band None)\<lparr>enabled := False\<rparr>)
   \<and> group (example_band (Some ''Flight 1'')) \<noteq> Some ''Calibration images''
   \<and> filename_formatted example_paths (example_band (Some ''Flight 1''))
       \<noteq> abspath example_paths
            (new_path example_paths ''/proj/p.c.BRDF_corrected''
               (example_band (Some ''Flight 1'')))
   \<and> filename_formatted example_paths (example_band (Some ''Flight 1''))
       \<noteq> new_filename_formatted example_paths ''/proj/p.c.BRDF_corrected''
            (example_band (Some ''Flight 1''))
   \<and> correct_band example_paths (\<lambda>b. Inr (7 :: nat)) ''/proj/p.c.BRDF_corrected''
        (Map.empty, example_band (Some ''Flight 1''))
       = Inr (Map.empty, example_band (Some ''Flight 1''))"
  by (simp add: correct_band_def group_label_def example_new_path
      example_new_filename_formatted example_filename_formatted)
     (simp add: example_band_def example_paths_def)

text \<open>
  Claim C2 (amended). A band of the camera group ``Calibration images'' is left untouched.
  For a band that has no camera group and whose photo lies neither at the destination
  \<open>new_path\<close> nor below it: when a file exists at the destination, that file becomes
  the photo of the band and nothing is computed; otherwise \<open>BRDFImage\<close> is called, the
  image it returns is written to the destination and becomes the photo of the band, a
  \<open>ValueError\<close> disables the band and writes nothing, and any other exception leaves the
  loop.
\<close>

theorem correct_band_cases:
  "(group b = Some ''Calibration images'' \<longrightarrow>
      correct_band P brdf outpath (fs, b) = Inr (fs, b))
   \<and> (group b = None
       \<and> filename_formatted P b \<noteq> abspath P (new_path P outpath b)
       \<and> filename_formatted P b \<noteq> new_filename_formatted P outpath b \<longrightarrow>
      (new_path P outpath b \<in> dom fs \<longrightarrow>
         correct_band P brdf outpath (fs, b) =
           Inr (fs, b\<lparr>photo_path := new_path P outpath b\<rparr>))
      \<and> (new_path P outpath b \<notin> dom fs \<longrightarrow>
           (\<forall>New_Image. brdf b = Inr New_Image \<longrightarrow>
              correct_band P brdf outpath (fs, b) =
                Inr (fs(new_path P outpath b \<mapsto> ImageFile New_Image),
                     b\<lparr>photo_path := new_path P outpath b\<rparr>))
           \<and> (brdf b = Inl ValueError \<longrightarrow>
              correct_band P brdf outpath (fs, b) = Inr (fs, b\<lparr>enabled := False\<rparr>))
           \<and> (\<forall>e. brdf b = Inl e \<and> e \<noteq> ValueError \<longrightarrow>
              correct_band P brdf outpath (fs, b) = Inl e)))"
  by (auto simp: correct_band_def group_label_def split: exn.splits sum.splits)

theorem correct_band_cases_witness:
  "correct_band example_paths (\<lambda>b. Inr (7 :: nat)) ''/proj/p.c.BRDF_corrected''
     (Map.empty, example_band (Some ''Calibration images''))
     = Inr (Map.empty, example_band (Some ''Calibration images''))
   \<and> correct_band example_paths (\<lambda>b. Inr (7 :: nat)) ''/proj/p.c.BRDF_corrected''
     ([''/proj/p.c.BRDF_corrected/IMG_1.tif'' \<mapsto> ImageFile 3], example_band None)
     = Inr ([''/proj/p.c.BRDF_corrected/IMG_1.tif'' \<mapsto> ImageFile 3],
            (example_band None)\<lparr>photo_path := ''/proj/p.c.BRDF_corrected/IMG_1.tif''\<rparr>)
   \<and> correct_band example_paths (\<lambda>b. Inr (7 :: nat)) ''/proj/p.c.BRDF_corrected''
     (Map.empty, example_band None)
     = Inr ([''/proj/p.c.BRDF_corrected/IMG_1.tif'' \<mapsto> ImageFile 7],
            (example_band None)\<lparr>photo_path := ''/proj/p.c.BRDF_corrected/IMG_1.tif''\<rparr>)
   \<and> correct_band example_paths (\<lambda>b. Inl ValueError :: exn + nat) ''/proj/p.c.BRDF_corrected''
     (Map.empty, example_band None)
     = Inr (Map.empty, (example_band None)\<lparr>enabled := False\<rparr>)
   \<and> correct_band example_paths (\<lambda>b. Inl IndexError :: exn + nat) ''/proj/p.c.BRDF_corrected''
     (Map.empty, example_band None)
     = Inl IndexError"
proof -
  have g: "group (example_band g) = g" for g by (simp add: example_band_def)
  have absolute: "abspath example_paths p = p" for p by (simp add: example_paths_def)
  note paths = example_new_path example_new_filename_formatted example_filename_formatted
  show ?thesis
    using
      correct_band_cases [of "example_band (Some ''Calibration images'')" example_paths
        "\<lambda>b. Inr (7 :: nat)" "''/proj/p.c.BRDF_corrected''" Map.empty]
      correct_band_cases [of "example_band None" example_paths
        "\<lambda>b. Inr (7 :: nat)" "''/proj/p.c.BRDF_corrected''"
        "[''/proj/p.c.BRDF_corrected/IMG_1.tif'' \<mapsto> ImageFile 3]"]
      correct_band_cases [of "example_band None" example_paths
        "\<lambda>b. Inr (7 :: nat)" "''/proj/p.c.BRDF_corrected''" Map.empty]
      correct_band_cases [of "example_band None" example_paths
        "\<lambda>b. Inl ValueError :: exn + nat" "''/proj/p.c.BRDF_corrected''" Map.empty]
      correct_band_cases [of "example_band None" example_paths
        "\<lambda>b. Inl IndexError :: exn + nat" "''/proj/p.c.BRDF_corrected''" Map.empty]
    by (simp add: g paths absolute)
qed

section \<open>Properties of BRDFImage\<close>

lemma fold_image_set:
  "image_width (fold (\<lambda>(u, v) img. image_set img u v (f v u)) uvs img0) = image_width img0"
  "image_height (fold (\<lambda>(u, v) img. image_set img u v (f v u)) uvs img0) = image_height img0"
  "data_type (fold (\<lambda>(u, v) img. image_set img u v (f v u)) uvs img0) = data_type img0"
  by (induction uvs arbitrary: img0; auto simp: image_set_def)+

lemma pixel_image_set:
  "pixel (image_set img a b x) u v = (if u = a \<and> v = b then x else pixel img u v)"
  by (simp add: image_set_def)

lemma fold_image_set_pixel:
  "pixel (fold (\<lambda>(u, v) img. image_set img u v (f v u)) uvs img0) u v =
     (if (u, v) \<in> set uvs then f v u else pixel img0 u v)"
proof (induction uvs arbitrary: img0)
  case Nil
  then show ?case by simp
next
  case (Cons uv uvs)
  obtain a b where uv: "uv = (a, b)" by (cases uv)
  show ?case
    using Cons [of "image_set img0 a b (f b a)"]
    by (auto simp: uv pixel_image_set)
qed

lemma clip_in_range:
  "a_min \<le> a_max \<Longrightarrow> a_min \<le> clip a_min a_max x \<and> clip a_min a_max x \<le> a_max"
  by (simp add: clip_def)

lemma float32_max_nonneg: "0 \<le> (2 - 1 / 2 ^ 23) * (2 :: real) ^ 127"
  by (intro mult_nonneg_nonneg) simp_all

lemma float64_max_nonneg: "0 \<le> (2 - 1 / 2 ^ 52) * (2 :: real) ^ 1023"
  by (intro mult_nonneg_nonneg) simp_all

lemma dtype_range_ordered:
  assumes "dtype_range Imtype = Inr (dtype_min, dtype_max)"
  shows "dtype_min \<le> dtype_max"
proof (cases Imtype)
  case float32
  with assms float32_max_nonneg show ?thesis
    by (simp only: dtype_range_def iinfo.simps finfo.simps sum.case exn.case sum.inject prod.inject)
       linarith
next
  case float64
  with assms float64_max_nonneg show ?thesis
    by (simp only: dtype_range_def iinfo.simps finfo.simps sum.case exn.case sum.inject prod.inject)
       linarith
qed (use assms in \<open>auto simp: dtype_range_def\<close>)

lemma dtype_range_U8:
  "dict_get datatype_table ''U8'' = Inr uint8" "dtype_range uint8 = Inr (0, 255)"
  by (simp_all add: dict_get_def datatype_table_def dtype_range_def)

lemma BRDFImage_result:
  assumes "BRDFImage sk C camera camera_matches point_matches Sun_azimuth View_zenith View_azimuth
             = Inr img"
  shows "\<exists>dtype_min dtype_max A.
           image_range (data_type (photo_image C camera)) = Inr (dtype_min, dtype_max)
           \<and> img = fold (\<lambda>(u, v) img. image_set img u v (clip dtype_min dtype_max (A v u)))
                    (List.product [0..<fst (sensor_size C camera)] [0..<snd (sensor_size C camera)])
                    (new_image (fst (sensor_size C camera)) (snd (sensor_size C camera))
                       (data_type (photo_image C camera)))"
  using assms
  by (auto simp: BRDFImage_def Let_def bind_def image_range_def
      split: sum.splits prod.splits)

text \<open>
  Claim C7. An image that BRDFImage returns has the width and the height of the camera's
  sensor, which are those of the source image whenever the sensor has the size of its
  image, and the data type tag of the source image; each of its pixels lies between the
  smallest and the largest value of that data type, between 0 and 255 for an 8-bit
  unsigned image. Pixel values are real numbers in the model, whatever the fitted models
  predict.
\<close>

theorem BRDFImage_clipped_to_data_type:
  assumes "BRDFImage sk C camera camera_matches point_matches Sun_azimuth View_zenith View_azimuth
             = Inr img"
  shows "image_width img = fst (sensor_size C camera)
       \<and> image_height img = snd (sensor_size C camera)
       \<and> data_type img = data_type (photo_image C camera)
       \<and> (\<exists>dtype_min dtype_max.
             image_range (data_type (photo_image C camera)) = Inr (dtype_min, dtype_max)
             \<and> (\<forall>u < image_width img. \<forall>v < image_height img.
                   dtype_min \<le> pixel img u v \<and> pixel img u v \<le> dtype_max))
       \<and> (data_type (photo_image C camera) = ''U8'' \<longrightarrow>
             (\<forall>u < image_width img. \<forall>v < image_height img.
                0 \<le> pixel img u v \<and> pixel img u v \<le> 255))
       \<and> (image_width (photo_image C camera) = fst (sensor_size C camera)
           \<and> image_height (photo_image C camera) = snd (sensor_size C camera) \<longrightarrow>
             image_width img = image_width (photo_image C camera)
             \<and> image_height img = image_height (photo_image C camera))"
proof -
  let ?w = "fst (sensor_size C camera)" and ?h = "snd (sensor_size C camera)"
  from BRDFImage_result [OF assms]
  obtain dtype_min dtype_max A where
    range: "image_range (data_type (photo_image C camera)) = Inr (dtype_min, dtype_max)"
    and img: "img = fold (\<lambda>(u, v) img. image_set img u v (clip dtype_min dtype_max (A v u)))
                    (List.product [0..<?w] [0..<?h])
                    (new_image ?w ?h (data_type (photo_image C camera)))"
    by blast
  have w: "image_width img = ?w" and h: "image_height img = ?h"
    and t: "data_type img = data_type (photo_image C camera)"
    by (simp_all add: img fold_image_set new_image_def)
  from range obtain Imtype where "dtype_range Imtype = Inr (dtype_min, dtype_max)"
    by (auto simp: image_range_def bind_def split: sum.splits)
  then have ordered: "dtype_min \<le> dtype_max" by (rule dtype_range_ordered)
  have px: "dtype_min \<le> pixel img u v \<and> pixel img u v \<le> dtype_max"
    if "u < image_width img" "v < image_height img" for u v
  proof -
    from that have "(u, v) \<in> set (List.product [0..<?w] [0..<?h])"
      by (simp add: w h)
    then have "pixel img u v = clip dtype_min dtype_max (A v u)"
      by (simp add: img fold_image_set_pixel)
    with clip_in_range [OF ordered] show ?thesis by simp
  qed
  have u8: "0 \<le> pixel img u v \<and> pixel img u v \<le> 255"
    if "data_type (photo_image C camera) = ''U8''"
      "u < image_width img" "v < image_height img" for u v
  proof -
    from range that(1) have "dtype_min = 0 \<and> dtype_max = 255"
      by (simp add: image_range_def bind_def dtype_range_U8)
    with px [OF that(2,3)] show ?thesis by simp
  qed
  show ?thesis
    using w h t range px u8 by auto
qed

subsection \<open>Outlier pruning and the global fit\<close>

text \<open>
  A row survives SearchForOutliers when the clustering does not label it noise, that is
  when it lies within \<open>eps\<close> of a core sample; a core sample has at least five rows
  within \<open>eps\<close>, and all of them survive with it. So the pruning keeps no row or at
  least five.
\<close>

lemma mask_filter: "map fst (filter snd (zip xs (map g xs))) = filter g xs"
  by (induction xs) auto

lemma SearchForOutliers_survivors:
  assumes "data \<noteq> []"
  shows "SearchForOutliers data =
           Inr (filter (\<lambda>s. \<not> DBSCAN_noise 5000 5
                              (map (\<lambda>s. [coef_0 s, coef_1 s, intercept s]) data)
                              [coef_0 s, coef_1 s, intercept s]) data)"
proof -
  let ?cols = "\<lambda>s. [coef_0 s, coef_1 s, intercept s]"
  let ?rows = "map ?cols data"
  have "map fst (filter snd (zip data (map (\<lambda>r. \<not> DBSCAN_noise 5000 5 ?rows r) ?rows))) =
          map fst (filter snd (zip data (map (\<lambda>s. \<not> DBSCAN_noise 5000 5 ?rows (?cols s)) data)))"
    by (simp add: comp_def)
  also have "\<dots> = filter (\<lambda>s. \<not> DBSCAN_noise 5000 5 ?rows (?cols s)) data"
    by (rule mask_filter)
  finally show ?thesis
    using assms by (simp add: SearchForOutliers_def Let_def)
qed

lemma length_filter_mono:
  "(\<And>x. x \<in> set xs \<Longrightarrow> P x \<Longrightarrow> Q x) \<Longrightarrow> length (filter P xs) \<le> length (filter Q xs)"
  by (induction xs) auto

lemma survivors_none_or_five:
  assumes "SearchForOutliers data = Inr denoised"
  shows "denoised = [] \<or> 5 \<le> length denoised"
proof (cases "data = []")
  case True
  with assms show ?thesis by (simp add: SearchForOutliers_def)
next
  case False
  let ?cols = "\<lambda>s. [coef_0 s, coef_1 s, intercept s]"
  let ?rows = "map ?cols data"
  let ?kept = "\<lambda>r. \<not> DBSCAN_noise 5000 5 ?rows r"
  from assms SearchForOutliers_survivors [OF False]
  have d: "denoised = filter (\<lambda>s. ?kept (?cols s)) data" by simp
  show ?thesis
  proof (cases "denoised = []")
    case True
    then show ?thesis by simp
  next
    case nonempty: False
    then obtain s where "s \<in> set data" "?kept (?cols s)"
      by (auto simp: d filter_empty_conv)
    then obtain q where q: "q \<in> set ?rows" "core_sample 5000 5 ?rows q"
      by (auto simp: DBSCAN_noise_def list_ex_iff)
    have "length (filter (within_eps 5000 q) ?rows) \<le> length (filter ?kept ?rows)"
    proof (rule length_filter_mono)
      fix r
      assume "r \<in> set ?rows" "within_eps 5000 q r"
      with q show "?kept r" by (auto simp: DBSCAN_noise_def list_ex_iff)
    qed
    moreover from q(2) have "5 \<le> length (filter (within_eps 5000 q) ?rows)"
      by (simp add: core_sample_def)
    moreover have "length (filter ?kept ?rows) = length denoised"
      by (simp add: d filter_map comp_def)
    ultimately show ?thesis by simp
  qed
qed

lemma SearchForOutliers_returns:
  "data \<noteq> [] \<Longrightarrow> \<exists>denoised. SearchForOutliers data = Inr denoised"
  by (simp add: SearchForOutliers_survivors)

lemma fit_features_no_survivors:
  assumes "LinearRegression_fit_no_intercept sk [] [] = Inl ValueError"
  shows "SearchForOutliers A0 = Inr [] \<Longrightarrow> A1 \<noteq> [] \<Longrightarrow>
           fit_features sk (A0, A1) = Inl ValueError"
    and "SearchForOutliers A0 = Inr denoised0 \<Longrightarrow>
         LinearRegression_fit_no_intercept sk (column_stack_234 denoised0)
           (map intercept denoised0) = Inr clf0 \<Longrightarrow>
         SearchForOutliers A1 = Inr [] \<Longrightarrow>
           fit_features sk (A0, A1) = Inl ValueError"
proof -
  show "fit_features sk (A0, A1) = Inl ValueError"
    if "SearchForOutliers A0 = Inr []" "A1 \<noteq> []"
  proof -
    from that(2) obtain d1 where "SearchForOutliers A1 = Inr d1"
      using SearchForOutliers_returns by blast
    with that(1) assms show ?thesis
      by (simp add: fit_features_def bind_def column_stack_234_def)
  qed
  show "fit_features sk (A0, A1) = Inl ValueError"
    if "SearchForOutliers A0 = Inr denoised0"
      "LinearRegression_fit_no_intercept sk (column_stack_234 denoised0)
           (map intercept denoised0) = Inr clf0"
      "SearchForOutliers A1 = Inr []"
    using that assms by (simp add: fit_features_def bind_def column_stack_234_def)
qed

lemma BRDFImage_fit_error:
  assumes "dict_get datatype_table (data_type (photo_image C camera)) = Inr Imtype"
    and "ImageGaussianMixture sk (snd (sensor_size C camera)) (fst (sensor_size C camera))
           (image_array C camera) = Inr GMM"
    and "dict_get camera_matches camera = Inr matches"
    and "solve_tie_points sk C camera matches point_matches Sun_azimuth View_zenith View_azimuth
           GMM = Inr BRDFArray"
    and "fit_features sk BRDFArray = Inl e"
  shows "BRDFImage sk C camera camera_matches point_matches Sun_azimuth View_zenith View_azimuth
           = Inl e"
  using assms by (simp add: BRDFImage_def Let_def bind_def image_array_def)

subsection \<open>The example photo\<close>

lemma dense_survivors:
  "SearchForOutliers [example_sample u y, example_sample u y, example_sample u y,
      example_sample u y, example_sample u y]
   = Inr [example_sample u y, example_sample u y, example_sample u y,
      example_sample u y, example_sample u y]"
  by (simp add: SearchForOutliers_def Let_def example_sample_def DBSCAN_noise_def
      core_sample_def within_eps_def squared_distance_def)

lemma sparse_survivors: "SearchForOutliers [example_sample u y] = Inr []"
  by (simp add: SearchForOutliers_def Let_def example_sample_def DBSCAN_noise_def
      core_sample_def within_eps_def squared_distance_def)

lemma example_mixture:
  "ImageGaussianMixture example_sklearn h w A = Inr (\<lambda>y. if y < 100 then 0 else 1)"
  by (simp add: ImageGaussianMixture_def example_sklearn_def)

lemma example_tie_point:
  "tie_point_sample example_sklearn example_cameras 0 pm no_angle no_angle no_angle
     (\<lambda>y. if y < 100 then 0 else 1) (k, (1 / 2, 1 / 2))
   = bind (dict_get pm k) (\<lambda>matches. Inr (0, example_sample (1 / 2) 50))"
  "tie_point_sample example_sklearn example_cameras 0 pm no_angle no_angle no_angle
     (\<lambda>y. if y < 100 then 0 else 1) (k, (3 / 2, 1 / 2))
   = bind (dict_get pm k) (\<lambda>matches. Inr (1, example_sample (3 / 2) 200))"
  by (simp_all add: tie_point_sample_def MultiLinearRegression_def bind_def
      example_cameras_def example_image_def example_sklearn_def no_angle_def zeros_def
      to_index_def example_sample_def Let_def split: sum.splits)

lemma sparse_tie_points:
  "solve_tie_points example_sklearn example_cameras 0
     [(0, (1 / 2, 1 / 2)), (1, (3 / 2, 1 / 2))] example_point_matches
     no_angle no_angle no_angle (\<lambda>y. if y < 100 then 0 else 1)
   = Inr ([example_sample (1 / 2) 50], [example_sample (3 / 2) 200])"
  by (simp add: solve_tie_points_def example_tie_point bind_def dict_get_def
      example_point_matches_def)

lemma dense_tie_points:
  "solve_tie_points example_sklearn example_cameras 0
     [(0, (1 / 2, 1 / 2)), (1, (1 / 2, 1 / 2)), (2, (1 / 2, 1 / 2)), (3, (1 / 2, 1 / 2)),
      (4, (1 / 2, 1 / 2)), (5, (3 / 2, 1 / 2)), (6, (3 / 2, 1 / 2)), (7, (3 / 2, 1 / 2)),
      (8, (3 / 2, 1 / 2)), (9, (3 / 2, 1 / 2))] dense_point_matches
     no_angle no_angle no_angle (\<lambda>y. if y < 100 then 0 else 1)
   = Inr ([example_sample (1 / 2) 50, example_sample (1 / 2) 50, example_sample (1 / 2) 50,
           example_sample (1 / 2) 50, example_sample (1 / 2) 50],
          [example_sample (3 / 2) 200, example_sample (3 / 2) 200, example_sample (3 / 2) 200,
           example_sample (3 / 2) 200, example_sample (3 / 2) 200])"
  by (simp add: solve_tie_points_def example_tie_point bind_def dict_get_def
      dense_point_matches_def)

lemma dense_fit:
  "fit_features example_sklearn
     ([example_sample (1 / 2) 50, example_sample (1 / 2) 50, example_sample (1 / 2) 50,
       example_sample (1 / 2) 50, example_sample (1 / 2) 50],
      [example_sample (3 / 2) 200, example_sample (3 / 2) 200, example_sample (3 / 2) 200,
       example_sample (3 / 2) 200, example_sample (3 / 2) 200])
   = Inr (\<lambda>sample. 3 * hd sample - 200, \<lambda>sample. 3 * hd sample - 200)"
  by (simp add: fit_features_def dense_survivors bind_def)
     (simp add: example_sklearn_def column_stack_234_def)

lemma BRDFImage_stages:
  assumes "dict_get datatype_table (data_type (photo_image C camera)) = Inr Imtype"
    and "ImageGaussianMixture sk (snd (sensor_size C camera)) (fst (sensor_size C camera))
           (image_array C camera) = Inr GMM"
    and "dict_get camera_matches camera = Inr matches"
    and "solve_tie_points sk C camera matches point_matches Sun_azimuth View_zenith View_azimuth
           GMM = Inr BRDFArray"
    and "fit_features sk BRDFArray = Inr (clf0, clf1)"
    and "dtype_range Imtype = Inr (dtype_min, dtype_max)"
  shows "BRDFImage sk C camera camera_matches point_matches Sun_azimuth View_zenith View_azimuth
           = Inr (fold (\<lambda>(u, v) img. image_set img u v
                          (clip dtype_min dtype_max
                             (ZenithPredict (image_array C camera)
                                (\<lambda>v u. GMM (image_array C camera v u))
                                (Sun_azimuth camera) (View_zenith camera) (View_azimuth camera)
                                clf0 clf1 v u)))
                    (List.product [0..<fst (sensor_size C camera)]
                       [0..<snd (sensor_size C camera)])
                    (new_image (fst (sensor_size C camera)) (snd (sensor_size C camera))
                       (data_type (photo_image C camera))))"
  using assms by (simp add: BRDFImage_def Let_def bind_def image_array_def)

lemma example_lookups:
  "dict_get datatype_table (data_type (photo_image example_cameras 0)) = Inr uint8"
  "dict_get dense_camera_matches 0 =
     Inr [(0, (1 / 2, 1 / 2)), (1, (1 / 2, 1 / 2)), (2, (1 / 2, 1 / 2)), (3, (1 / 2, 1 / 2)),
          (4, (1 / 2, 1 / 2)), (5, (3 / 2, 1 / 2)), (6, (3 / 2, 1 / 2)), (7, (3 / 2, 1 / 2)),
          (8, (3 / 2, 1 / 2)), (9, (3 / 2, 1 / 2))]"
  "dict_get example_camera_matches 0 = Inr [(0, (1 / 2, 1 / 2)), (1, (3 / 2, 1 / 2))]"
  by (simp_all add: dict_get_def datatype_table_def example_cameras_def example_image_def
      dense_camera_matches_def example_camera_matches_def)

text \<open>
  A run of BRDFImage on the example with five tie points on each feature: the predictions
  -50 and 400 are clipped to 0 and 255.
\<close>

lemma example_run:
  "BRDFImage example_sklearn example_cameras 0 dense_camera_matches dense_point_matches
     no_angle no_angle no_angle
   = Inr (image_set (image_set (new_image 2 1 ''U8'') 0 0 0) 1 0 255)"
proof -
  have range: "dtype_range uint8 = Inr (0, 255)"
    by (simp add: dtype_range_def)
  have "BRDFImage example_sklearn example_cameras 0 dense_camera_matches dense_point_matches
          no_angle no_angle no_angle
        = Inr (fold (\<lambda>(u, v) img. image_set img u v
                       (clip 0 255
                          (ZenithPredict (image_array example_cameras 0)
                             (\<lambda>v u. (if image_array example_cameras 0 v u < 100 then 0 else 1))
                             (no_angle 0) (no_angle 0) (no_angle 0)
                             (\<lambda>sample. 3 * hd sample - 200) (\<lambda>sample. 3 * hd sample - 200)
                             v u)))
                 (List.product [0..<fst (sensor_size example_cameras 0)]
                    [0..<snd (sensor_size example_cameras 0)])
                 (new_image (fst (sensor_size example_cameras 0))
                    (snd (sensor_size example_cameras 0))
                    (data_type (photo_image example_cameras 0))))"
    by (rule BRDFImage_stages [OF example_lookups(1) example_mixture example_lookups(2)
          dense_tie_points dense_fit range])
  also have "\<dots> = Inr (image_set (image_set (new_image 2 1 ''U8'') 0 0 0) 1 0 255)"
    by (simp add: image_array_def example_cameras_def example_image_def no_angle_def zeros_def
        ZenithPredict_def clip_def array_set_def upt_conv_Cons Let_def)
  finally show ?thesis .
qed

theorem BRDFImage_clipped_to_data_type_witness:
  "BRDFImage example_sklearn example_cameras 0 dense_camera_matches dense_point_matches
     no_angle no_angle no_angle
   = Inr (image_set (image_set (new_image 2 1 ''U8'') 0 0 0) 1 0 255)
   \<and> image_width (image_set (image_set (new_image 2 1 ''U8'') 0 0 0) 1 0 255) = 2
   \<and> image_height (image_set (image_set (new_image 2 1 ''U8'') 0 0 0) 1 0 255) = 1
   \<and> data_type (image_set (image_set (new_image 2 1 ''U8'') 0 0 0) 1 0 255) = ''U8''
   \<and> 0 \<le> pixel (image_set (image_set (new_image 2 1 ''U8'') 0 0 0) 1 0 255) 0 0
   \<and> pixel (image_set (image_set (new_image 2 1 ''U8'') 0 0 0) 1 0 255) 0 0 \<le> 255
   \<and> 0 \<le> pixel (image_set (image_set (new_image 2 1 ''U8'') 0 0 0) 1 0 255) 1 0
   \<and> pixel (image_set (image_set (new_image 2 1 ''U8'') 0 0 0) 1 0 255) 1 0 \<le> 255"
proof -
  let ?img = "image_set (image_set (new_image 2 1 ''U8'') 0 0 0) 1 0 255"
  note c = BRDFImage_clipped_to_data_type [OF example_run]
  have dims: "image_width ?img = 2" "image_height ?img = 1" "data_type ?img = ''U8''"
    using c by (simp_all add: example_cameras_def example_image_def)
  have t: "data_type (photo_image example_cameras 0) = ''U8''"
    by (simp add: example_cameras_def example_image_def)
  from c t have all: "\<forall>u < image_width ?img. \<forall>v < image_height ?img.
                0 \<le> pixel ?img u v \<and> pixel ?img u v \<le> 255"
    by blast
  have p: "0 \<le> pixel ?img u v \<and> pixel ?img u v \<le> 255" if "u < 2" "v < 1" for u v
    using all that unfolding dims by blast
  have "0 \<le> pixel ?img 0 0 \<and> pixel ?img 0 0 \<le> 255
           \<and> 0 \<le> pixel ?img 1 0 \<and> pixel ?img 1 0 \<le> 255"
    using p [of 0 0] p [of 1 0] by simp
  with dims example_run show ?thesis by simp
qed

text \<open>
  A run of BRDFImage on the example with a single tie point on each feature: the clustering
  labels both rows noise and the global fit receives an empty sample set.
\<close>

lemma sparse_fit:
  "fit_features example_sklearn ([example_sample (1 / 2) 50], [example_sample (3 / 2) 200])
   = Inl ValueError"
  by (simp add: fit_features_def sparse_survivors bind_def)
     (simp add: example_sklearn_def column_stack_234_def)

lemma sparse_run:
  "BRDFImage example_sklearn example_cameras 0 example_camera_matches example_point_matches
     no_angle no_angle no_angle
   = Inl ValueError"
  by (rule BRDFImage_fit_error [OF example_lookups(1) example_mixture example_lookups(3)
        sparse_tie_points sparse_fit])

lemma example_band_paths:
  "group (example_band None) = None"
  "filename_formatted example_paths (example_band None)
     \<noteq> abspath example_paths (new_path example_paths ''/proj/p.c.BRDF_corrected'' (example_band None))"
  "filename_formatted example_paths (example_band None)
     \<noteq> new_filename_formatted example_paths ''/proj/p.c.BRDF_corrected'' (example_band None)"
  "new_path example_paths ''/proj/p.c.BRDF_corrected'' (example_band None) \<notin> dom Map.empty"
  by (simp_all add: example_new_path example_new_filename_formatted example_filename_formatted)
     (simp_all add: example_band_def example_paths_def)

text \<open>
  In the example with one tie point on each feature no sample survives the pruning. No
  check follows it: the empty sample matrix is passed to the global fit, the error is the
  \<open>ValueError\<close> that the regression raises on an empty sample set, it leaves BRDFImage,
  and the per-band loop disables the band.
\<close>

theorem no_survivors_counterexample:
  "SearchForOutliers [example_sample (1 / 2) 50] = Inr []
   \<and> LinearRegression_fit_no_intercept example_sklearn [] [] = Inl ValueError
   \<and> fit_features example_sklearn ([example_sample (1 / 2) 50], [example_sample (3 / 2) 200])
      = Inl ValueError
   \<and> BRDFImage example_sklearn example_cameras 0 example_camera_matches example_point_matches
        no_angle no_angle no_angle
      = Inl ValueError
   \<and> correct_band example_paths
        (\<lambda>b. BRDFImage example_sklearn example_cameras 0 example_camera_matches
                example_point_matches no_angle no_angle no_angle)
        ''/proj/p.c.BRDF_corrected'' (Map.empty, example_band None)
      = Inr (Map.empty, (example_band None)\<lparr>enabled := False\<rparr>)"
proof -
  have fit: "LinearRegression_fit_no_intercept example_sklearn [] [] = Inl ValueError"
    by (simp add: example_sklearn_def)
  have band: "correct_band example_paths
        (\<lambda>b. BRDFImage example_sklearn example_cameras 0 example_camera_matches
                example_point_matches no_angle no_angle no_angle)
        ''/proj/p.c.BRDF_corrected'' (Map.empty, example_band None)
      = Inr (Map.empty, (example_band None)\<lparr>enabled := False\<rparr>)"
    using example_band_paths
    by (simp add: correct_band_def group_label_def sparse_run)
  show ?thesis
    using sparse_survivors [of "1 / 2" 50] fit sparse_fit sparse_run band by simp
qed

text \<open>
  Claim C9 (amended). SearchForOutliers leaves no sample of a feature or at least five,
  so the only surviving count below that is zero. When no sample of a feature survives,
  no error of the pipeline's own is signalled for that feature: the empty sample set is
  passed to \<^verbatim>\<open>LinearRegression.fit\<close>, whose \<open>ValueError\<close> on an empty sample set leaves
  BRDFImage, and the per-band loop of BRDFCorrection disables the band.
\<close>

theorem no_survivors_disable_band:
  assumes "LinearRegression_fit_no_intercept sk [] [] = Inl ValueError"
  shows "(SearchForOutliers data = Inr denoised \<longrightarrow> denoised = [] \<or> 5 \<le> length denoised)
       \<and> (SearchForOutliers A0 = Inr [] \<and> A1 \<noteq> [] \<longrightarrow>
            fit_features sk (A0, A1) = Inl ValueError)
       \<and> (SearchForOutliers A0 = Inr denoised0
           \<and> LinearRegression_fit_no_intercept sk (column_stack_234 denoised0)
               (map intercept denoised0) = Inr clf0
           \<and> SearchForOutliers A1 = Inr [] \<longrightarrow>
            fit_features sk (A0, A1) = Inl ValueError)
       \<and> (dict_get datatype_table (data_type (photo_image C camera)) = Inr Imtype
           \<and> ImageGaussianMixture sk (snd (sensor_size C camera)) (fst (sensor_size C camera))
               (image_array C camera) = Inr GMM
           \<and> dict_get camera_matches camera = Inr matches
           \<and> solve_tie_points sk C camera matches point_matches
               Sun_azimuth View_zenith View_azimuth GMM = Inr BRDFArray
           \<and> fit_features sk BRDFArray = Inl ValueError
           \<and> group b = None
           \<and> filename_formatted P b \<noteq> abspath P (new_path P outpath b)
           \<and> filename_formatted P b \<noteq> new_filename_formatted P outpath b
           \<and> new_path P outpath b \<notin> dom fs \<longrightarrow>
            BRDFImage sk C camera camera_matches point_matches
              Sun_azimuth View_zenith View_azimuth = Inl ValueError
            \<and> correct_band P
                (\<lambda>b. BRDFImage sk C camera camera_matches point_matches
                        Sun_azimuth View_zenith View_azimuth)
                outpath (fs, b)
              = Inr (fs, b\<lparr>enabled := False\<rparr>))"
proof (intro conjI impI)
  assume "SearchForOutliers data = Inr denoised"
  then show "denoised = [] \<or> 5 \<le> length denoised" by (rule survivors_none_or_five)
next
  assume "SearchForOutliers A0 = Inr [] \<and> A1 \<noteq> []"
  then show "fit_features sk (A0, A1) = Inl ValueError"
    using fit_features_no_survivors(1) [OF assms] by blast
next
  assume "SearchForOutliers A0 = Inr denoised0
           \<and> LinearRegression_fit_no_intercept sk (column_stack_234 denoised0)
               (map intercept denoised0) = Inr clf0
           \<and> SearchForOutliers A1 = Inr []"
  then show "fit_features sk (A0, A1) = Inl ValueError"
    using fit_features_no_survivors(2) [OF assms] by blast
next
  assume h: "dict_get datatype_table (data_type (photo_image C camera)) = Inr Imtype
           \<and> ImageGaussianMixture sk (snd (sensor_size C camera)) (fst (sensor_size C camera))
               (image_array C camera) = Inr GMM
           \<and> dict_get camera_matches camera = Inr matches
           \<and> solve_tie_points sk C camera matches point_matches
               Sun_azimuth View_zenith View_azimuth GMM = Inr BRDFArray
           \<and> fit_features sk BRDFArray = Inl ValueError
           \<and> group b = None
           \<and> filename_formatted P b \<noteq> abspath P (new_path P outpath b)
           \<and> filename_formatted P b \<noteq> new_filename_formatted P outpath b
           \<and> new_path P outpath b \<notin> dom fs"
  have run: "BRDFImage sk C camera camera_matches point_matches
              Sun_azimuth View_zenith View_azimuth = Inl ValueError"
    by (rule BRDFImage_fit_error [of C camera Imtype sk GMM camera_matches matches
          point_matches Sun_azimuth View_zenith View_azimuth BRDFArray])
       (simp_all add: h)
  then show "BRDFImage sk C camera camera_matches point_matches
              Sun_azimuth View_zenith View_azimuth = Inl ValueError" .
  from h run show "correct_band P
                (\<lambda>b. BRDFImage sk C camera camera_matches point_matches
                        Sun_azimuth View_zenith View_azimuth)
                outpath (fs, b)
              = Inr (fs, b\<lparr>enabled := False\<rparr>)"
    by (simp add: correct_band_def group_label_def)
qed

theorem no_survivors_disable_band_witness:
  "LinearRegression_fit_no_intercept example_sklearn [] [] = Inl ValueError
   \<and> SearchForOutliers [example_sample (1 / 2) 50] = Inr []
   \<and> fit_features example_sklearn ([example_sample (1 / 2) 50], [example_sample (3 / 2) 200])
      = Inl ValueError
   \<and> correct_band example_paths
        (\<lambda>b. BRDFImage example_sklearn example_cameras 0 example_camera_matches
                example_point_matches no_angle no_angle no_angle)
        ''/proj/p.c.BRDF_corrected'' (Map.empty, example_band None)
      = Inr (Map.empty, (example_band None)\<lparr>enabled := False\<rparr>)
   \<and> SearchForOutliers [example_sample (1 / 2) 50, example_sample (1 / 2) 50,
        example_sample (1 / 2) 50, example_sample (1 / 2) 50, example_sample (1 / 2) 50]
      = Inr [example_sample (1 / 2) 50, example_sample (1 / 2) 50,
        example_sample (1 / 2) 50, example_sample (1 / 2) 50, example_sample (1 / 2) 50]"
proof -
  have fit: "LinearRegression_fit_no_intercept example_sklearn [] [] = Inl ValueError"
    by (simp add: example_sklearn_def)
  note rl = no_survivors_disable_band [OF fit]
  have a: "fit_features example_sklearn
             ([example_sample (1 / 2) 50], [example_sample (3 / 2) 200]) = Inl ValueError"
    using rl [THEN conjunct2, THEN conjunct1,
        of "[example_sample (1 / 2) 50]" "[example_sample (3 / 2) 200]"]
      sparse_survivors [of "1 / 2" 50]
    by simp
  have b: "correct_band example_paths
        (\<lambda>b. BRDFImage example_sklearn example_cameras 0 example_camera_matches
                example_point_matches no_angle no_angle no_angle)
        ''/proj/p.c.BRDF_corrected'' (Map.empty, example_band None)
      = Inr (Map.empty, (example_band None)\<lparr>enabled := False\<rparr>)"
  proof (rule rl [THEN conjunct2, THEN conjunct2, THEN conjunct2,
        of example_cameras 0 uint8 "\<lambda>y. if y < 100 then 0 else 1"
        example_camera_matches "[(0, (1 / 2, 1 / 2)), (1, (3 / 2, 1 / 2))]"
        example_point_matches no_angle no_angle no_angle
        "([example_sample (1 / 2) 50], [example_sample (3 / 2) 200])"
        "example_band None" example_paths "''/proj/p.c.BRDF_corrected''" Map.empty,
        THEN mp, THEN conjunct2])
    show "dict_get datatype_table (data_type (photo_image example_cameras 0)) = Inr uint8
      \<and> ImageGaussianMixture example_sklearn (snd (sensor_size example_cameras 0))
          (fst (sensor_size example_cameras 0)) (image_array example_cameras 0)
          = Inr (\<lambda>y. if y < 100 then 0 else 1)
      \<and> dict_get example_camera_matches 0 = Inr [(0, (1 / 2, 1 / 2)), (1, (3 / 2, 1 / 2))]
      \<and> solve_tie_points example_sklearn example_cameras 0
          [(0, (1 / 2, 1 / 2)), (1, (3 / 2, 1 / 2))] example_point_matches
          no_angle no_angle no_angle (\<lambda>y. if y < 100 then 0 else 1)
          = Inr ([example_sample (1 / 2) 50], [example_sample (3 / 2) 200])
      \<and> fit_features example_sklearn
          ([example_sample (1 / 2) 50], [example_sample (3 / 2) 200]) = Inl ValueError
      \<and> group (example_band None) = None
      \<and> filename_formatted example_paths (example_band None)
          \<noteq> abspath example_paths
              (new_path example_paths ''/proj/p.c.BRDF_corrected'' (example_band None))
      \<and> filename_formatted example_paths (example_band None)
          \<noteq> new_filename_formatted example_paths ''/proj/p.c.BRDF_corrected''
              (example_band None)
      \<and> new_path example_paths ''/proj/p.c.BRDF_corrected'' (example_band None)
          \<notin> dom Map.empty"
      by (intro conjI example_lookups(1) example_lookups(3) example_mixture
            sparse_tie_points a example_band_paths)
  qed
  show ?thesis
    using fit sparse_survivors [of "1 / 2" 50] a b dense_survivors [of "1 / 2" 50] by simp
qed

end
